theory Spec2Isabelle
  imports Main
begin

section \<open>Python primitives used by the decoder\<close>

text \<open>
  The development embeds the part-number codec (\<^verbatim>\<open>decoder.py\<close>, \<^verbatim>\<open>makers/misumi.py\<close>)
  and the Voron Trident frame tables (\<^verbatim>\<open>printers/trident.py\<close>, \<^verbatim>\<open>voron.py\<close>).

  A Python \<^verbatim>\<open>str\<close> is a \<^typ>\<open>string\<close>; a \<^typ>\<open>char\<close> stands for one code point below 256
  (Latin-1), so the multiplication sign of \<^verbatim>\<open>parse_size\<close> is the single character 0xD7.
  Code points from 256 on are outside the model. A Python \<^verbatim>\<open>int\<close> is an \<^typ>\<open>int\<close>;
  the interpreter's configurable cap on the number of digits converted by \<^verbatim>\<open>int()\<close> and
  \<^verbatim>\<open>str()\<close> (4300 by default) is not modelled.
\<close>

definition is_digit :: "char \<Rightarrow> bool" where
  "is_digit c = (c \<in> set ''0123456789'')"

definition is_upper :: "char \<Rightarrow> bool" where
  "is_upper c = (c \<in> set ''ABCDEFGHIJKLMNOPQRSTUVWXYZ'')"

text \<open>The characters that \<^verbatim>\<open>int()\<close> strips from both ends of its argument.\<close>

definition is_int_space :: "char \<Rightarrow> bool" where
  "is_int_space c = (c \<in> set [CHR 0x09, CHR 0x0A, CHR 0x0B, CHR 0x0C, CHR 0x0D, CHR 0x20,
                                CHR 0x85, CHR 0xA0])"

definition digit_val :: "char \<Rightarrow> int" where
  "digit_val c = int (of_char c) - 48"

text \<open>
  \<^verbatim>\<open>int(s)\<close> in base 10: surrounding whitespace is dropped, one sign is allowed, then
  decimal digits, where a single underscore may stand between two digits. Everything else
  raises \<^verbatim>\<open>ValueError\<close>, which is the value \<open>None\<close> here.
\<close>

fun int_digits :: "string \<Rightarrow> int \<Rightarrow> int option" where
  "int_digits [] acc = Some acc"
| "int_digits (c # cs) acc =
     (if is_digit c then int_digits cs (10 * acc + digit_val c)
      else if c = CHR ''_'' then
        (case cs of
           [] \<Rightarrow> None
         | d # ds \<Rightarrow> if is_digit d then int_digits ds (10 * acc + digit_val d) else None)
      else None)"

definition int_unsigned :: "string \<Rightarrow> int option" where
  "int_unsigned s =
     (case s of
        [] \<Rightarrow> None
      | c # cs \<Rightarrow> if is_digit c then int_digits cs (digit_val c) else None)"

definition py_strip :: "string \<Rightarrow> string" where
  "py_strip s = rev (dropWhile is_int_space (rev (dropWhile is_int_space s)))"

definition py_int :: "string \<Rightarrow> int option" where
  "py_int s =
     (case py_strip s of
        [] \<Rightarrow> None
      | c # cs \<Rightarrow>
          if c = CHR ''-'' then map_option uminus (int_unsigned cs)
          else if c = CHR ''+'' then int_unsigned cs
          else int_unsigned (c # cs))"

text \<open>\<^verbatim>\<open>str(n)\<close> for an integer: decimal digits, with a leading minus sign below zero.\<close>

definition digit_char :: "nat \<Rightarrow> char" where
  "digit_char d = ''0123456789'' ! d"

fun nat_digits :: "nat \<Rightarrow> string" where
  "nat_digits n = (if n < 10 then [digit_char n] else nat_digits (n div 10) @ [digit_char (n mod 10)])"

declare nat_digits.simps [simp del]

definition py_str :: "int \<Rightarrow> string" where
  "py_str n = (if n < 0 then CHR ''-'' # nat_digits (nat (- n)) else nat_digits (nat n))"

text \<open>\<^verbatim>\<open>s.split(sep)\<close> for a one-character separator, and \<^verbatim>\<open>sep.join(parts)\<close>.\<close>

fun py_split :: "char \<Rightarrow> string \<Rightarrow> string list" where
  "py_split sep [] = [[]]"
| "py_split sep (c # cs) =
     (if c = sep then [] # py_split sep cs
      else (case py_split sep cs of
              [] \<Rightarrow> [[c]]
            | p # ps \<Rightarrow> (c # p) # ps))"

fun py_join :: "string \<Rightarrow> string list \<Rightarrow> string" where
  "py_join sep [] = []"
| "py_join sep [p] = p"
| "py_join sep (p # q # ps) = p @ sep @ py_join sep (q # ps)"

definition startswith :: "string \<Rightarrow> string \<Rightarrow> bool" where
  "startswith s p = (take (length p) s = p)"

text \<open>\<^verbatim>\<open>needle in haystack\<close> on two strings: the needle occurs as a contiguous run.\<close>

fun str_contains :: "string \<Rightarrow> string \<Rightarrow> bool" where
  "str_contains needle [] = (needle = [])"
| "str_contains needle (c # cs) = (startswith (c # cs) needle \<or> str_contains needle cs)"

text \<open>
  \<^verbatim>\<open>re.match(r"^([A-Z]+)(\d+)$", code)\<close>: a non-empty run of capitals, then a non-empty run
  of digits, then the end of the string. Python's \<^verbatim>\<open>$\<close> also matches just before one final
  line feed, so the remainder may be a single character 0x0A. The two classes are
  disjoint, hence the greedy split is the only candidate.
\<close>

definition re_match_code :: "string \<Rightarrow> (string \<times> string) option" where
  "re_match_code code =
     (let base_code = takeWhile is_upper code;
          rest = dropWhile is_upper code;
          numeric_value = takeWhile is_digit rest;
          tail = dropWhile is_digit rest
      in if base_code \<noteq> [] \<and> numeric_value \<noteq> [] \<and> (tail = [] \<or> tail = [CHR 0x0A])
         then Some (base_code, numeric_value) else None)"

text \<open>
  The shape of a suffixed token as the specification words it, for comparison with the
  regular expression above: one or more capital letters followed by one or more decimal
  digits, and nothing else.
\<close>

definition spec_letters_digits_shape :: "string \<Rightarrow> bool" where
  "spec_letters_digits_shape token =
     (let letters = takeWhile is_upper token;
          digits = dropWhile is_upper token
      in letters \<noteq> [] \<and> digits \<noteq> [] \<and> list_all is_digit digits)"

section \<open>The alteration code table and the codec\<close>

text \<open>The module constant \<^verbatim>\<open>ALTERATION_CODES\<close>, entry by entry in source order.\<close>

definition ALTERATION_CODES_items :: "(string \<times> string) list" where
  "ALTERATION_CODES_items = [
  (''LTP'', ''Left End Tapping (Center Hole)''),
  (''RTP'', ''Right End Tapping (Center Hole)''),
  (''TPM'', ''End Tapping (Center Hole)''),
  (''TPW'', ''End Tapping (Center Hole, Both Sides, Heli-Coil Insert)''),
  (''LHP'', ''Left End Tapping (Center Hole)''),
  (''RHP'', ''Right End Tapping (Center Hole)''),
  (''HPW'', ''End Tapping (Center Hole, Heli-Coil Insert)''),
  (''LSP'', ''Left End Tapping (4 Side Holes)''),
  (''RSP'', ''Right End Tapping (4 Side Holes)''),
  (''SPW'', ''End Tapping (4 Side Holes)''),
  (''SC'', ''High Precision Cut (L=0.2 tolerance)''),
  (''L_T45'', ''Left 45-Degree Cut''),
  (''R_T45'', ''Right 45-Degree Cut''),
  (''LCH'', ''Left Wrench Access Hole (1 Slot, Horizontal)''),
  (''LCV'', ''Left Wrench Access Hole (1 Slot, Vertical)''),
  (''LCP'', ''Left Wrench Access Hole (1 Slot, Crisscross)''),
  (''RCH'', ''Right Wrench Access Hole (1 Slot, Horizontal)''),
  (''RCV'', ''Right Wrench Access Hole (1 Slot, Vertical)''),
  (''RCP'', ''Right Wrench Access Hole (1 Slot, Crisscross)''),
  (''LWH'', ''Left Wrench Access Hole (2 Slots, Horizontal)''),
  (''LWV'', ''Left Wrench Access Hole (2 Slots, Vertical)''),
  (''LWP'', ''Left Wrench Access Hole (2 Slots, Crisscross)''),
  (''RWH'', ''Right Wrench Access Hole (2 Slots, Horizontal)''),
  (''RWV'', ''Right Wrench Access Hole (2 Slots, Vertical)''),
  (''RWP'', ''Right Wrench Access Hole (2 Slots, Crisscross)''),
  (''LEH'', ''Left Wrench Access Hole (3 Slots, Horizontal)''),
  (''LEV'', ''Left Wrench Access Hole (3 Slots, Vertical)''),
  (''LEP'', ''Left Wrench Access Hole (3 Slots, Crisscross)''),
  (''REH'', ''Right Wrench Access Hole (3 Slots, Horizontal)''),
  (''REV'', ''Right Wrench Access Hole (3 Slots, Vertical)''),
  (''REP'', ''Right Wrench Access Hole (3 Slots, Crisscross)''),
  (''RWIP'', ''Right Wrench Hole in Fixed Position''),
  (''X5'', ''Wrench Hole Diameter Specification (5mm)''),
  (''X8'', ''Wrench Hole Diameter Specification (8mm)''),
  (''FL'', ''Extrusion End Caps Hole Position Change (Left, for 3mm cap)''),
  (''FR'', ''Extrusion End Caps Hole Position Change (Right, for 3mm cap)''),
  (''AH'', ''Wrench Hole in Specified Position (Horizontal, A position)''),
  (''BH'', ''Wrench Hole in Specified Position (Horizontal, B position)''),
  (''CH'', ''Wrench Hole in Specified Position (Horizontal, C position)''),
  (''DH'', ''Wrench Hole in Specified Position (Horizontal, D position)''),
  (''EH'', ''Wrench Hole in Specified Position (Horizontal, E position)''),
  (''AV'', ''Wrench Hole in Specified Position (Vertical, A position)''),
  (''BV'', ''Wrench Hole in Specified Position (Vertical, B position)''),
  (''CV'', ''Wrench Hole in Specified Position (Vertical, C position)''),
  (''DV'', ''Wrench Hole in Specified Position (Vertical, D position)''),
  (''EV'', ''Wrench Hole in Specified Position (Vertical, E position)''),
  (''AP'', ''Wrench Hole in Specified Position (Crisscross, A position)''),
  (''BP'', ''Wrench Hole in Specified Position (Crisscross, B position)''),
  (''CP'', ''Wrench Hole in Specified Position (Crisscross, C position)''),
  (''DP'', ''Wrench Hole in Specified Position (Crisscross, D position)''),
  (''EP'', ''Wrench Hole in Specified Position (Crisscross, E position)''),
  (''Z5'', ''Counterbore in Specified Position (Z5, d=5.5mm)''),
  (''Z6'', ''Counterbore in Specified Position (Z6, d=6.5mm)''),
  (''Z8'', ''Counterbore in Specified Position (Z8, d=9mm)''),
  (''Z12'', ''Counterbore in Specified Position (Z12, d=13mm)''),
  (''XA'', ''Counterbore (Top to Bottom, Vertical, A position)''),
  (''XB'', ''Counterbore (Top to Bottom, Vertical, B position)''),
  (''XC'', ''Counterbore (Top to Bottom, Vertical, C position)''),
  (''XD'', ''Counterbore (Top to Bottom, Vertical, D position)''),
  (''XE'', ''Counterbore (Top to Bottom, Vertical, E position)''),
  (''YA'', ''Counterbore (Right to Left, Horizontal, A position)''),
  (''YB'', ''Counterbore (Right to Left, Horizontal, B position)''),
  (''YC'', ''Counterbore (Right to Left, Horizontal, C position)''),
  (''YD'', ''Counterbore (Right to Left, Horizontal, D position)''),
  (''YE'', ''Counterbore (Right to Left, Horizontal, E position)''),
  (''LDH'', ''Left D Hole (Horizontal on Left End, Pre-Assembly Insertion Double Joint)''),
  (''LDV'', ''Left D Hole (Vertical on Left End, Pre-Assembly Insertion Double Joint)''),
  (''RDH'', ''Right D Hole (Horizontal on Right End, Pre-Assembly Insertion Double Joint)''),
  (''RDV'', ''Right D Hole (Vertical on Right End, Pre-Assembly Insertion Double Joint)''),
  (''LSH'', ''Left S Hole (Horizontal on Left End, Post-Assembly Insertion Double Joint, Center Joint)''),
  (''LSV'', ''Left S Hole (Vertical on Left End, Post-Assembly Insertion Double Joint, Center Joint)''),
  (''RSH'', ''Right S Hole (Horizontal on Right End, Post-Assembly Insertion Double Joint, Center Joint)''),
  (''RSV'', ''Right S Hole (Vertical on Right End, Post-Assembly Insertion Double Joint, Center Joint)''),
  (''LMH'', ''Left M Hole (Post-Assembly Insertion Double Joint, Post Connection)''),
  (''RMH'', ''Right M Hole (Horizontal on Right End, Post-Assembly Insertion Double Joint, Post Connection)''),
  (''JLP'', ''L Hole (Crisscross on Top, Parallel Joint)''),
  (''KLP'', ''L Hole (Crisscross on Bottom, Parallel Joint)''),
  (''LTS'', ''Left End Tapping (GFS/HFSR Series)''),
  (''RTS'', ''Right End Tapping (GFS/HFSR Series)''),
  (''TSW'', ''End Tapping (GFS/HFSR Series)''),
  (''CW'', ''End Face C Chamfering''),
  (''ZZZ'', ''Labeling (Serial Number)''),
  (''LL'', ''Labeling (Unit Number)'')
]"

definition ALTERATION_CODES :: "string \<rightharpoonup> string" where
  "ALTERATION_CODES = map_of ALTERATION_CODES_items"

text \<open>The base codes whose numeric suffix is a distance from the left end.\<close>

definition position_bases :: "string list" where
  "position_bases =
     [''AV'', ''BV'', ''CV'', ''DV'', ''EV'', ''AH'', ''BH'', ''CH'', ''DH'', ''EH'',
      ''AP'', ''BP'', ''CP'', ''DP'', ''EP'', ''XA'', ''XB'', ''XC'', ''XD'', ''XE'',
      ''YA'', ''YB'', ''YC'', ''YD'', ''YE'']"

text \<open>
  \<^verbatim>\<open>parse_alteration_code\<close>. The second test of the source (codes with an underscore) looks
  the same key up again, so it can only fail where the first one failed; it is kept as
  written.
\<close>

definition parse_alteration_code :: "string \<Rightarrow> string \<times> string option" where
  "parse_alteration_code code =
     (case ALTERATION_CODES code of
        Some description \<Rightarrow> (description, None)
      | None \<Rightarrow>
          (case (if CHR ''_'' \<in> set code then ALTERATION_CODES code else None) of
             Some description \<Rightarrow> (description, None)
           | None \<Rightarrow>
               (case re_match_code code of
                  Some (base_code, numeric_value) \<Rightarrow>
                    (case ALTERATION_CODES base_code of
                       Some description \<Rightarrow>
                         if base_code \<in> set position_bases
                           then (description, Some (numeric_value @ ''mm from left end''))
                         else if base_code \<in> set [''JLP'', ''KLP'']
                           then (description, Some (''Hole pitch: '' @ numeric_value @ ''mm''))
                         else if base_code = ''ZZZ''
                           then (description, Some (''Serial: '' @ numeric_value))
                         else if base_code = ''LL''
                           then (description, Some (''Unit: '' @ numeric_value))
                         else (description, Some numeric_value)
                     | None \<Rightarrow> (''Unknown alteration code: '' @ base_code, Some numeric_value))
                | None \<Rightarrow> (''Unknown alteration code: '' @ code, None))))"

definition times_sign :: char where
  "times_sign = CHR 0xD7"

definition parse_size :: "string \<Rightarrow> string" where
  "parse_size size_str =
     (if length size_str = 4 then
        (let dim = take 2 size_str
         in dim @ ''mm '' @ [times_sign] @ '' '' @ dim @ ''mm'')
      else if length size_str = 6 then
        (let dim1 = take 2 size_str;
             dim2 = take 2 (drop 2 size_str);
             dim3 = take 2 (drop 4 size_str)
         in dim1 @ ''mm '' @ [times_sign] @ '' '' @ dim2 @ ''mm '' @ [times_sign] @ '' '' @ dim3 @ ''mm'')
      else size_str @ '' (custom size)'')"

definition parse_length :: "string \<Rightarrow> string" where
  "parse_length length_str =
     (case py_int length_str of
        Some n \<Rightarrow> py_str n @ ''mm''
      | None \<Rightarrow> length_str)"

text \<open>
  The decoder returns a dictionary from field names to values; a value is a string or
  a list of strings.
\<close>

datatype pyval = PStr string | PList "string list"

type_synonym pydict = "string \<rightharpoonup> pyval"

text \<open>One pass of the loop that fills \<^verbatim>\<open>alteration_descriptions\<close>.\<close>

definition describe_alteration :: "string \<Rightarrow> string" where
  "describe_alteration alt_code =
     (case parse_alteration_code alt_code of
        (desc, Some v) \<Rightarrow> if v \<noteq> [] then desc @ '' ('' @ v @ '')'' else desc
      | (desc, None) \<Rightarrow> desc)"

definition decode_misumi_name :: "string \<Rightarrow> pydict" where
  "decode_misumi_name part_number =
     (let parts = py_split CHR ''-'' part_number
      in if length parts < 3 then
           [''error'' \<mapsto> PStr (''Invalid part number format. Expected at least 3 parts separated by hyphens, got: '' @ part_number)]
         else
           (let series = parts ! 0;
                size_raw = parts ! 1;
                length_raw = parts ! 2;
                alterations = (if length parts > 3 then drop 3 parts else []);
                alteration_descriptions = map describe_alteration alterations
            in [''part_number'' \<mapsto> PStr part_number,
                ''series'' \<mapsto> PStr series,
                ''size'' \<mapsto> PStr (parse_size size_raw),
                ''size_raw'' \<mapsto> PStr size_raw,
                ''length'' \<mapsto> PStr (parse_length length_raw),
                ''length_raw'' \<mapsto> PStr length_raw,
                ''alterations'' \<mapsto> PList alterations,
                ''alteration_descriptions'' \<mapsto> PList alteration_descriptions]))"

text \<open>
  \<^verbatim>\<open>MisumiMaker.encode_part_number\<close>; the optional argument \<^verbatim>\<open>alterations\<close> is \<open>None\<close>
  when it is left out.
\<close>

definition encode_part_number :: "string \<Rightarrow> string \<Rightarrow> int \<Rightarrow> string list option \<Rightarrow> string" where
  "encode_part_number series size_code len alterations =
     (let parts = [series, size_code, py_str len];
          parts' = (case alterations of
                      None \<Rightarrow> parts
                    | Some alts \<Rightarrow> if alts \<noteq> [] then parts @ alts else parts)
      in py_join ''-'' parts')"

section \<open>The Voron Trident frame\<close>

text \<open>
  \<^verbatim>\<open>BuildVolume\<close> and \<^verbatim>\<open>ExtrusionSpec\<close> of \<^verbatim>\<open>printers/base.py\<close>. The constructor of a build
  volume fills in the name \<^verbatim>\<open>XxYxZ\<close> when none (or an empty one) is given.
\<close>

record BuildVolume =
  bv_x :: int
  bv_y :: int
  bv_z :: int
  bv_name :: string

definition BuildVolume_init :: "int \<Rightarrow> int \<Rightarrow> int \<Rightarrow> string option \<Rightarrow> BuildVolume" where
  "BuildVolume_init x y z name =
     \<lparr>bv_x = x, bv_y = y, bv_z = z,
      bv_name = (case name of
                   Some n \<Rightarrow> if n \<noteq> [] then n else py_str x @ ''x'' @ py_str y @ ''x'' @ py_str z
                 | None \<Rightarrow> py_str x @ ''x'' @ py_str y @ ''x'' @ py_str z)\<rparr>"

record ExtrusionSpec =
  spec_letter :: string
  spec_length :: int
  spec_quantity :: int
  spec_alterations :: "string list"
  spec_description :: "string option"

definition get_supported_build_volumes :: "BuildVolume list" where
  "get_supported_build_volumes =
     [BuildVolume_init 250 250 250 (Some ''250x250x250''),
      BuildVolume_init 300 300 250 (Some ''300x300x250''),
      BuildVolume_init 350 350 250 (Some ''350x350x250'')]"

text \<open>\<^verbatim>\<open>TridentPrinter.get_extrusion_specs\<close>: the eight frame members of a build volume.\<close>

definition get_extrusion_specs :: "BuildVolume \<Rightarrow> ExtrusionSpec list" where
  "get_extrusion_specs build_volume =
     (let build_size_x = bv_x build_volume;
          a_length = build_size_x + 120;
          c_length = build_size_x + 120;
          f_length = build_size_x + 120;
          d_length = build_size_x - 10;
          e_length = build_size_x + 80;
          g_length = build_size_x - 18;
          b_length = 500;
          h_length = 330
      in [\<lparr>spec_letter = ''A'', spec_length = a_length, spec_quantity = 9,
           spec_alterations = [''TPW''],
           spec_description = Some ''Horizontal frame extrusions (3 bottom, 4 top, 2 middle sides)''\<rparr>,
          \<lparr>spec_letter = ''B'', spec_length = b_length, spec_quantity = 4,
           spec_alterations = [''LCP'', ''RCP'', ''AV360''],
           spec_description = Some ''Vertical upright extrusions (span full height, 4 corners)''\<rparr>,
          \<lparr>spec_letter = ''C'', spec_length = c_length, spec_quantity = 1,
           spec_alterations = [''AV'' @ py_str (c_length div 2), ''TPW''],
           spec_description = Some ''Bottom rear horizontal extrusion (identical to A but with wrench-access hole at midpoint, tapped holes at ends)''\<rparr>,
          \<lparr>spec_letter = ''D'', spec_length = d_length, spec_quantity = 1,
           spec_alterations = [],
           spec_description = Some ''Rear Brace of print-head gantry support''\<rparr>,
          \<lparr>spec_letter = ''E'', spec_length = e_length, spec_quantity = 1,
           spec_alterations = [],
           spec_description = Some ''Gantry X-axis extrusion (used in X axis assembly, carries print head)''\<rparr>,
          \<lparr>spec_letter = ''F'', spec_length = f_length, spec_quantity = 1,
           spec_alterations = [''AH235'', ''TPW''],
           spec_description = Some ''Print bed support extrusion (G mounts to its midpoint)''\<rparr>,
          \<lparr>spec_letter = ''G'', spec_length = g_length, spec_quantity = 1,
           spec_alterations = [''AH235''],
           spec_description = Some ''Print bed support extrusion (mounts to F midpoint; bed constrained by rails on H front and front B extrusions)''\<rparr>,
          \<lparr>spec_letter = ''H'', spec_length = h_length, spec_quantity = 1,
           spec_alterations = [],
           spec_description = Some ''Vertical center extrusion (mounts to C center, D mounts to top)''\<rparr>])"

subsection \<open>Reading the decoded dictionary\<close>

text \<open>
  The classifiers receive the dictionary untyped. On a list of strings \<^verbatim>\<open>tok in v\<close> is
  membership and iteration yields the elements; on a string it is the substring test and
  iteration yields the one-character strings. \<^verbatim>\<open>int(v)\<close> raises \<^verbatim>\<open>TypeError\<close> on a list,
  which both classifiers catch together with \<^verbatim>\<open>ValueError\<close>.
\<close>

fun py_in :: "string \<Rightarrow> pyval \<Rightarrow> bool" where
  "py_in tok (PList xs) = (tok \<in> set xs)"
| "py_in tok (PStr s) = str_contains tok s"

fun py_iter :: "pyval \<Rightarrow> string list" where
  "py_iter (PList xs) = xs"
| "py_iter (PStr s) = map (\<lambda>c. [c]) s"

fun py_truthy :: "pyval \<Rightarrow> bool" where
  "py_truthy (PList xs) = (xs \<noteq> [])"
| "py_truthy (PStr s) = (s \<noteq> [])"

fun py_int_val :: "pyval \<Rightarrow> int option" where
  "py_int_val (PStr s) = py_int s"
| "py_int_val (PList xs) = None"

definition dict_get :: "pydict \<Rightarrow> string \<Rightarrow> pyval \<Rightarrow> pyval" where
  "dict_get d k dflt = (case d k of Some v \<Rightarrow> v | None \<Rightarrow> dflt)"

subsection \<open>The build-volume-aware classifier\<close>

definition build_size_of :: "BuildVolume option \<Rightarrow> string option" where
  "build_size_of build_volume =
     (case build_volume of
        None \<Rightarrow> None
      | Some bv \<Rightarrow>
          if bv_x bv = 250 then Some ''250mm''
          else if bv_x bv = 300 then Some ''300mm''
          else if bv_x bv = 350 then Some ''350mm''
          else None)"

text \<open>The conditional expression that every size-dependent rule evaluates.\<close>

definition expected_x :: "string option \<Rightarrow> int option" where
  "expected_x build_size =
     (if build_size = Some ''250mm'' then Some 250
      else if build_size = Some ''300mm'' then Some 300
      else if build_size = Some ''350mm'' then Some 350
      else None)"

text \<open>
  The loop of the C rule over the position codes: a code whose suffix is no integer is
  skipped, the first one close enough to the midpoint decides.
\<close>

fun c_rule_loop :: "string list \<Rightarrow> int \<Rightarrow> int option \<Rightarrow> string option" where
  "c_rule_loop [] len expected_c = None"
| "c_rule_loop (pos_code # rest) len expected_c =
     (case py_int (drop 2 pos_code) of
        None \<Rightarrow> c_rule_loop rest len expected_c
      | Some position \<Rightarrow>
          (case expected_c of
             None \<Rightarrow> c_rule_loop rest len expected_c
           | Some e \<Rightarrow>
               if e \<noteq> 0 \<and> len = e + 120 \<and> \<bar>position - len div 2\<bar> \<le> 5 then Some ''C''
               else c_rule_loop rest len expected_c))"

definition c_rule :: "int \<Rightarrow> pyval \<Rightarrow> int \<Rightarrow> string option \<Rightarrow> string option" where
  "c_rule len alterations quantity build_size =
     (if py_in ''TPW'' alterations \<and> quantity = 1 then
        (let position_codes =
               filter (\<lambda>alt. startswith alt ''AV'' \<or> startswith alt ''AH'') (py_iter alterations)
         in if position_codes \<noteq> [] then c_rule_loop position_codes len (expected_x build_size)
            else None)
      else None)"

text \<open>\<^verbatim>\<open>expected and length == expected + k\<close>, with \<open>k\<close> possibly negative.\<close>

definition length_matches :: "string option \<Rightarrow> int \<Rightarrow> int \<Rightarrow> bool" where
  "length_matches build_size len k =
     (case expected_x build_size of
        None \<Rightarrow> False
      | Some e \<Rightarrow> e \<noteq> 0 \<and> len = e + k)"

definition trident_rules :: "int \<Rightarrow> pyval \<Rightarrow> int \<Rightarrow> string option \<Rightarrow> string option" where
  "trident_rules len alterations quantity build_size =
     (if len = 500 \<and> py_in ''LCP'' alterations \<and> py_in ''RCP'' alterations
         \<and> py_in ''AV360'' alterations
      then Some ''B''
      else
        (case c_rule len alterations quantity build_size of
           Some letter \<Rightarrow> Some letter
         | None \<Rightarrow>
             if \<not> py_in ''TPW'' alterations \<and> quantity = 1
                \<and> length_matches build_size len 120
                \<and> (py_in ''AH185'' alterations \<or> py_in ''AH235'' alterations)
             then Some ''F''
             else if py_in ''TPW'' alterations \<and> \<not> py_in ''AH235'' alterations
                \<and> \<not> py_in ''AV235'' alterations \<and> \<not> py_in ''AH185'' alterations
                \<and> length_matches build_size len 120
             then Some ''A''
             else if \<not> py_truthy alterations \<and> quantity = 1
                \<and> length_matches build_size len (- 10)
             then Some ''D''
             else if \<not> py_truthy alterations \<and> quantity = 1
                \<and> length_matches build_size len 80
             then Some ''E''
             else if py_in ''LTP'' alterations \<and> quantity = 1
                \<and> length_matches build_size len (- 18)
             then Some ''G''
             else if py_in ''LTP'' alterations \<and> quantity = 1 \<and> len = 330
             then Some ''H''
             else None))"

text \<open>\<^verbatim>\<open>TridentPrinter.get_extrusion_letter\<close>; the result \<open>None\<close> is Python's \<^verbatim>\<open>None\<close>.\<close>

definition get_extrusion_letter :: "pydict \<Rightarrow> int \<Rightarrow> BuildVolume option \<Rightarrow> string option" where
  "get_extrusion_letter decoded quantity build_volume =
     (if decoded ''error'' \<noteq> None then None
      else
        (let length_raw = dict_get decoded ''length_raw'' (PStr []);
             alterations = dict_get decoded ''alterations'' (PList [])
         in case py_int_val length_raw of
              None \<Rightarrow> None
            | Some len \<Rightarrow> trident_rules len alterations quantity (build_size_of build_volume)))"

subsection \<open>The legacy classifier of \<^verbatim>\<open>voron.py\<close>\<close>

definition voron_rules :: "int \<Rightarrow> pyval \<Rightarrow> int \<Rightarrow> string option \<Rightarrow> string option" where
  "voron_rules len alterations quantity build_size =
     (if len = 500 \<and> py_in ''LCP'' alterations \<and> py_in ''RCP'' alterations
         \<and> py_in ''AV360'' alterations
      then Some ''B''
      else if len = 340 \<and> quantity = 1 then Some ''A''
      else if len = 290 \<and> quantity = 1 then Some ''A''
      else if len = 240 \<and> quantity = 1 then Some ''A''
      else if len \<in> set [330, 332] \<and> py_in ''LTP'' alterations then Some ''E''
      else if len \<in> set [380, 382] \<and> py_in ''LTP'' alterations then Some ''E''
      else if len \<in> set [430, 432] \<and> py_in ''LTP'' alterations then Some ''E''
      else if len = 430 \<and> quantity = 1 then Some ''D''
      else if len = 380 \<and> quantity = 1 then Some ''D''
      else if len = 480 \<and> quantity = 1 then Some ''D''
      else if len = 470 \<and> py_in ''TPW'' alterations \<and> \<not> py_in ''AH235'' alterations then
        (if build_size = Some ''300mm'' then Some ''C''
         else if build_size \<in> set [Some ''250mm'', Some ''350mm''] then Some ''H''
         else Some ''C/H'')
      else if len = 420 \<and> py_in ''TPW'' alterations \<and> \<not> py_in ''AH235'' alterations
      then Some ''C''
      else if len = 520 \<and> py_in ''TPW'' alterations \<and> \<not> py_in ''AH235'' alterations
      then Some ''C''
      else if len = 470 \<and> py_in ''AH235'' alterations \<and> py_in ''TPW'' alterations
         \<and> quantity = 1
      then Some ''F''
      else if len = 420 \<and> py_in ''AH235'' alterations \<and> py_in ''TPW'' alterations
         \<and> quantity = 1
      then Some ''F''
      else if len = 520 \<and> py_in ''AH235'' alterations \<and> py_in ''TPW'' alterations
         \<and> quantity = 1
      then Some ''F''
      else if len = 470 \<and> py_in ''AH235'' alterations \<and> \<not> py_in ''TPW'' alterations
         \<and> quantity = 1
      then Some ''G''
      else if len = 420 \<and> py_in ''AH235'' alterations \<and> \<not> py_in ''TPW'' alterations
         \<and> quantity = 1
      then Some ''G''
      else if len = 520 \<and> py_in ''AH235'' alterations \<and> \<not> py_in ''TPW'' alterations
         \<and> quantity = 1
      then Some ''G''
      else None)"

definition voron_get_extrusion_letter :: "pydict \<Rightarrow> int \<Rightarrow> string option \<Rightarrow> string option" where
  "voron_get_extrusion_letter decoded quantity build_size =
     (if decoded ''error'' \<noteq> None then None
      else
        (let length_raw = dict_get decoded ''length_raw'' (PStr []);
             alterations = dict_get decoded ''alterations'' (PList [])
         in case py_int_val length_raw of
              None \<Rightarrow> None
            | Some len \<Rightarrow> voron_rules len alterations quantity build_size))"

section \<open>Auxiliary facts\<close>

subsection \<open>Splitting and joining\<close>

lemma py_split_not_Nil: "py_split sep s \<noteq> []"
  by (induction s) (auto split: list.splits)

lemma py_split_no_sep: "sep \<notin> set p \<Longrightarrow> py_split sep p = [p]"
  by (induction p) auto

lemma py_split_append_sep:
  "sep \<notin> set p \<Longrightarrow> py_split sep (p @ sep # s) = p # py_split sep s"
  by (induction p) auto

lemma py_split_parts_no_sep: "p \<in> set (py_split sep s) \<Longrightarrow> sep \<notin> set p"
proof (induction s arbitrary: p)
  case Nil
  then show ?case by simp
next
  case (Cons c cs)
  show ?case
  proof (cases "c = sep")
    case True
    with Cons show ?thesis by auto
  next
    case False
    obtain q qs where q: "py_split sep cs = q # qs"
      using py_split_not_Nil [of sep cs] by (cases "py_split sep cs") auto
    with False Cons.prems have "p = c # q \<or> p \<in> set qs" by auto
    with q False Cons.IH show ?thesis by auto
  qed
qed

lemma py_split_join:
  "ps \<noteq> [] \<Longrightarrow> \<forall>p \<in> set ps. sep \<notin> set p \<Longrightarrow> py_split sep (py_join [sep] ps) = ps"
proof (induction "[sep]" ps rule: py_join.induct)
  case 1
  then show ?case by simp
next
  case (2 p)
  then show ?case by (simp add: py_split_no_sep)
next
  case (3 p q ps)
  then show ?case by (simp add: py_split_append_sep)
qed

text \<open>The number of segments is the number of separators plus one.\<close>

lemma length_py_split: "length (py_split sep s) = Suc (count_list s sep)"
proof (induction s)
  case Nil
  then show ?case by simp
next
  case (Cons c cs)
  then show ?case
    using py_split_not_Nil [of sep cs] by (cases "py_split sep cs") auto
qed

subsection \<open>Decimal numerals\<close>

lemmas py_eval = py_str_def nat_digits.simps digit_char_def py_int_def py_strip_def
  is_int_space_def int_unsigned_def is_digit_def digit_val_def

lemma digit_char_is_digit: "d < 10 \<Longrightarrow> is_digit (digit_char d)"
proof -
  assume "d < 10"
  then have "d \<in> {0, 1, 2, 3, 4, 5, 6, 7, 8, 9}" by auto
  then show ?thesis by (auto simp: digit_char_def is_digit_def)
qed

lemma nat_digits_digits: "c \<in> set (nat_digits n) \<Longrightarrow> is_digit c"
proof (induction n rule: nat_digits.induct)
  case (1 n)
  then show ?case
    by (cases "n < 10") (auto simp: nat_digits.simps [of n] digit_char_is_digit)
qed

lemma hyphen_not_digit: "\<not> is_digit CHR ''-''"
  by (simp add: is_digit_def)

lemma py_str_no_hyphen: "0 \<le> n \<Longrightarrow> CHR ''-'' \<notin> set (py_str n)"
  using nat_digits_digits hyphen_not_digit by (auto simp: py_str_def)

lemma py_str_hyphen_neg: "n < 0 \<Longrightarrow> CHR ''-'' \<in> set (py_str n)"
  by (simp add: py_str_def)

text \<open>Reading back what \<^verbatim>\<open>str\<close> wrote: \<^verbatim>\<open>int(str(n)) == n\<close>.\<close>

lemma digit_val_digit_char: "d < 10 \<Longrightarrow> digit_val (digit_char d) = int d"
proof -
  assume "d < 10"
  then have "d \<in> {0, 1, 2, 3, 4, 5, 6, 7, 8, 9}" by auto
  then show ?thesis by (auto simp: digit_char_def digit_val_def)
qed

lemma int_digits_snoc:
  "int_digits xs acc = Some v \<Longrightarrow> is_digit d \<Longrightarrow>
     int_digits (xs @ [d]) acc = Some (10 * v + digit_val d)"
proof (induction xs acc rule: int_digits.induct)
  case (1 acc)
  then show ?case by simp
next
  case (2 c cs acc)
  then show ?case
    by (auto split: if_splits list.splits)
qed

lemma int_unsigned_snoc:
  "int_unsigned xs = Some v \<Longrightarrow> is_digit d \<Longrightarrow>
     int_unsigned (xs @ [d]) = Some (10 * v + digit_val d)"
  by (cases xs) (auto simp: int_unsigned_def int_digits_snoc split: if_splits)

lemma int_unsigned_nat_digits: "int_unsigned (nat_digits n) = Some (int n)"
proof (induction n rule: nat_digits.induct)
  case (1 n)
  show ?case
  proof (cases "n < 10")
    case True
    then show ?thesis
      by (simp add: nat_digits.simps [of n] int_unsigned_def digit_char_is_digit digit_val_digit_char)
  next
    case False
    then have ih: "int_unsigned (nat_digits (n div 10)) = Some (int (n div 10))"
      using 1 by simp
    have d: "n mod 10 < 10" by simp
    have "int_unsigned (nat_digits (n div 10) @ [digit_char (n mod 10)]) =
            Some (10 * int (n div 10) + digit_val (digit_char (n mod 10)))"
      using ih digit_char_is_digit [OF d] by (rule int_unsigned_snoc)
    also have "\<dots> = Some (int n)"
    proof -
      have "10 * int (n div 10) + int (n mod 10) = int n"
        by presburger
      then show ?thesis
        by (simp add: digit_val_digit_char [OF d])
    qed
    finally show ?thesis
      using False by (simp add: nat_digits.simps [of n])
  qed
qed

lemma digit_not_space: "is_digit c \<Longrightarrow> \<not> is_int_space c"
  by (auto simp: is_digit_def is_int_space_def)

lemma nat_digits_not_Nil: "nat_digits n \<noteq> []"
  by (subst nat_digits.simps) simp

lemma py_strip_id:
  assumes "s \<noteq> []" and "\<not> is_int_space (hd s)" and "\<not> is_int_space (last s)"
  shows "py_strip s = s"
proof -
  have a: "dropWhile is_int_space s = s"
    using assms(1,2) by (cases s) auto
  have "rev s \<noteq> []" and "\<not> is_int_space (hd (rev s))"
    using assms(1,3) by (simp_all add: hd_rev)
  then have "dropWhile is_int_space (rev s) = rev s"
    by (cases "rev s") auto
  with a show ?thesis by (simp add: py_strip_def)
qed

lemma py_strip_nat_digits: "py_strip (nat_digits n) = nat_digits n"
proof (rule py_strip_id)
  show ne: "nat_digits n \<noteq> []" by (rule nat_digits_not_Nil)
  then show "\<not> is_int_space (hd (nat_digits n))"
    using nat_digits_digits [of "hd (nat_digits n)" n] digit_not_space by auto
  from ne show "\<not> is_int_space (last (nat_digits n))"
    using nat_digits_digits [of "last (nat_digits n)" n] digit_not_space by auto
qed

lemma py_int_nat_digits: "py_int (nat_digits n) = Some (int n)"
proof -
  obtain c cs where s: "nat_digits n = c # cs"
    using nat_digits_not_Nil [of n] by (cases "nat_digits n") auto
  then have "is_digit c"
    using nat_digits_digits [of c n] by simp
  then have "c \<noteq> CHR ''-''" "c \<noteq> CHR ''+''"
    by (auto simp: is_digit_def)
  moreover have "py_strip (c # cs) = c # cs"
    using py_strip_nat_digits [of n] s by simp
  moreover have "int_unsigned (c # cs) = Some (int n)"
    using int_unsigned_nat_digits [of n] s by simp
  ultimately show ?thesis
    by (simp add: py_int_def s)
qed

lemma py_int_py_str: "py_int (py_str n) = Some n"
proof (cases "n < 0")
  case False
  then show ?thesis
    by (simp add: py_str_def py_int_nat_digits)
next
  case True
  have ne: "nat_digits (nat (- n)) \<noteq> []" by (rule nat_digits_not_Nil)
  have "\<not> is_int_space (last (nat_digits (nat (- n))))"
    using ne nat_digits_digits [of "last (nat_digits (nat (- n)))" "nat (- n)"] digit_not_space
    by auto
  then have "py_strip (CHR ''-'' # nat_digits (nat (- n))) = CHR ''-'' # nat_digits (nat (- n))"
    using ne by (intro py_strip_id) (simp_all add: is_int_space_def)
  with True show ?thesis
    by (simp add: py_str_def py_int_def int_unsigned_nat_digits)
qed

lemma parse_length_py_str: "parse_length (py_str n) = py_str n @ ''mm''"
  by (simp add: parse_length_def py_int_py_str)

subsection \<open>Reading the fields of a decoded part number\<close>

lemma encode_part_number_join:
  "encode_part_number series size_code len alterations =
     py_join ''-'' ([series, size_code, py_str len] @ (case alterations of None \<Rightarrow> [] | Some a \<Rightarrow> a))"
  by (cases alterations) (auto simp: encode_part_number_def Let_def)

lemma decode_misumi_name_fields:
  assumes "py_split CHR ''-'' s = series # size_raw # length_raw # alts"
  shows "decode_misumi_name s ''error'' = None"
    and "decode_misumi_name s ''series'' = Some (PStr series)"
    and "decode_misumi_name s ''size_raw'' = Some (PStr size_raw)"
    and "decode_misumi_name s ''length_raw'' = Some (PStr length_raw)"
    and "decode_misumi_name s ''alterations'' = Some (PList alts)"
  using assms by (simp_all add: decode_misumi_name_def Let_def)

lemma decode_of_encode:
  assumes "CHR ''-'' \<notin> set series" and "CHR ''-'' \<notin> set size_code" and "0 \<le> len"
    and "\<forall>a \<in> set alts. CHR ''-'' \<notin> set a"
    and "alts = (case alterations of None \<Rightarrow> [] | Some a \<Rightarrow> a)"
  shows "py_split CHR ''-'' (encode_part_number series size_code len alterations) =
           series # size_code # py_str len # alts"
proof -
  have "\<forall>p \<in> set ([series, size_code, py_str len] @ alts). CHR ''-'' \<notin> set p"
    using assms py_str_no_hyphen [of len] by auto
  then have "py_split CHR ''-'' (py_join ''-'' ([series, size_code, py_str len] @ alts)) =
               [series, size_code, py_str len] @ alts"
    by (intro py_split_join) auto
  then show ?thesis
    using assms(5) by (simp add: encode_part_number_join)
qed

lemma insert8_rev: "{h, g, f, e, d, c, b, a} = {a, b, c, d, e, f, g, h}"
  by auto

lemma dom_decode_ok:
  assumes "\<not> length (py_split CHR ''-'' s) < 3"
  shows "dom (decode_misumi_name s) =
          {''part_number'', ''series'', ''size'', ''size_raw'', ''length'', ''length_raw'',
           ''alterations'', ''alteration_descriptions''}"
proof -
  have "dom (decode_misumi_name s) =
          {''alteration_descriptions'', ''alterations'', ''length_raw'', ''length'', ''size_raw'',
           ''size'', ''series'', ''part_number''}"
    using assms by (simp add: decode_misumi_name_def Let_def)
  also have "\<dots> = {''part_number'', ''series'', ''size'', ''size_raw'', ''length'', ''length_raw'',
           ''alterations'', ''alteration_descriptions''}"
    by (rule insert8_rev)
  finally show ?thesis .
qed

lemma dom_decode_error:
  assumes "length (py_split CHR ''-'' s) < 3"
  shows "dom (decode_misumi_name s) = {''error''}"
  using assms by (simp add: decode_misumi_name_def Let_def)

lemma decode_error_lookup:
  assumes "length (py_split CHR ''-'' s) < 3"
  shows "decode_misumi_name s ''series'' = None"
  using assms by (simp add: decode_misumi_name_def Let_def)

lemma decode_ok_lookup:
  assumes "\<not> length (py_split CHR ''-'' s) < 3"
  shows "decode_misumi_name s ''error'' = None"
    and "decode_misumi_name s ''part_number'' = Some (PStr s)"
    and "\<exists>alts descs. decode_misumi_name s ''alterations'' = Some (PList alts)
               \<and> decode_misumi_name s ''alteration_descriptions'' = Some (PList descs)
               \<and> length descs = length alts"
  using assms by (simp_all add: decode_misumi_name_def Let_def)

subsection \<open>The rules of the build-volume-aware classifier\<close>

lemmas rules_eval = trident_rules_def c_rule_def startswith_def length_matches_def
  expected_x_def build_size_of_def Let_def

lemma expected_x_cases:
  "expected_x bs = None \<or> expected_x bs = Some 250 \<or> expected_x bs = Some 300 \<or> expected_x bs = Some 350"
  by (simp add: expected_x_def)

lemma expected_x_None: "expected_x None = None"
  by (simp add: expected_x_def)

lemma build_size_of_unsupported:
  "build_volume = None \<or> (\<exists>bv. build_volume = Some bv \<and> bv_x bv \<notin> {250, 300, 350})
     \<Longrightarrow> build_size_of build_volume = None"
  by (auto simp: build_size_of_def)

lemma c_rule_loop_no_size: "c_rule_loop ps len None = None"
  by (induction ps) (auto split: option.splits)

lemma c_rule_loop_range: "c_rule_loop ps len e = None \<or> c_rule_loop ps len e = Some ''C''"
  by (induction ps) (auto split: option.splits)

lemma c_rule_loop_length:
  "c_rule_loop ps len (expected_x bs) = Some letter \<Longrightarrow> len \<in> {370, 420, 470}"
proof (induction ps)
  case Nil
  then show ?case by simp
next
  case (Cons p ps)
  then show ?case
    using expected_x_cases [of bs] by (auto split: option.splits if_splits)
qed

lemma c_rule_range: "c_rule len a q bs = None \<or> c_rule len a q bs = Some ''C''"
  using c_rule_loop_range by (simp add: c_rule_def Let_def)

lemma c_rule_no_size: "c_rule len a q None = None"
  by (simp add: c_rule_def Let_def expected_x_None c_rule_loop_no_size)

lemma c_rule_length: "c_rule len a q bs = Some letter \<Longrightarrow> len \<in> {370, 420, 470}"
  using c_rule_loop_length [of _ len bs letter]
  by (auto simp: c_rule_def Let_def split: if_splits)

lemma length_matches_no_size: "\<not> length_matches None len k"
  by (simp add: length_matches_def expected_x_None)

lemma length_matches_cases:
  "length_matches bs len k \<Longrightarrow> len = 250 + k \<or> len = 300 + k \<or> len = 350 + k"
  using expected_x_cases [of bs] by (auto simp: length_matches_def split: option.splits)

lemma trident_rules_no_size:
  "trident_rules len a q None \<in> {Some ''B'', Some ''H'', None}"
  by (simp add: trident_rules_def c_rule_no_size length_matches_no_size)

lemma trident_rules_range:
  "trident_rules len a q bs \<in>
     {None, Some ''A'', Some ''B'', Some ''C'', Some ''D'', Some ''E'', Some ''F'', Some ''G'', Some ''H''}"
proof (cases "c_rule len a q bs")
  case None
  then show ?thesis by (simp add: trident_rules_def)
next
  case (Some letter)
  then have "letter = ''C''"
    using c_rule_range [of len a q bs] by simp
  with Some show ?thesis by (simp add: trident_rules_def)
qed

lemma str_contains_not_Nil: "str_contains (c # cs) s \<Longrightarrow> s \<noteq> []"
  by (cases s) auto

lemma py_in_truthy: "py_in (c # cs) a \<Longrightarrow> py_truthy a"
  by (cases a) (auto dest: str_contains_not_Nil)

lemma trident_rules_H:
  assumes "py_in ''LTP'' a"
  shows "trident_rules 330 a 1 bs = Some ''H''"
proof -
  have c: "c_rule 330 a 1 bs = None"
    using c_rule_length [of 330 a 1 bs] by (cases "c_rule 330 a 1 bs") auto
  have t: "py_truthy a" using assms by (rule py_in_truthy)
  have m: "\<not> length_matches bs 330 120" "\<not> length_matches bs 330 (- 18)"
    using length_matches_cases [of bs 330 120] length_matches_cases [of bs 330 "- 18"] by auto
  show ?thesis
    using assms by (simp add: trident_rules_def c t m)
qed

text \<open>A classifier only reads the error flag, the raw length and the alteration list.\<close>

lemma classify_encoded:
  assumes "\<forall>a \<in> set alts. CHR ''-'' \<notin> set a" and "0 \<le> len"
  shows "get_extrusion_letter
           (decode_misumi_name (encode_part_number ''HFSB5'' ''2020'' len (Some alts))) q bv =
         trident_rules len (PList alts) q (build_size_of bv)"
proof -
  have "py_split CHR ''-'' (encode_part_number ''HFSB5'' ''2020'' len (Some alts)) =
          ''HFSB5'' # ''2020'' # py_str len # alts"
    using assms(1,2) by (intro decode_of_encode) auto
  from decode_misumi_name_fields [OF this] show ?thesis
    by (simp add: get_extrusion_letter_def dict_get_def Let_def py_int_py_str)
qed

subsection \<open>The regular expression and the keys of the table\<close>

lemma is_digit_not_upper: "is_digit c \<Longrightarrow> \<not> is_upper c"
  by (auto simp: is_digit_def is_upper_def)

lemma split_letters_digits:
  assumes "\<forall>c \<in> set B. is_upper c" and "D \<noteq> []" and "\<forall>c \<in> set D. is_digit c"
  shows "takeWhile is_upper (B @ D) = B" and "dropWhile is_upper (B @ D) = D"
proof -
  obtain d ds where D: "D = d # ds" using assms(2) by (cases D) auto
  then have nd: "\<not> is_upper d" using assms(3) by (simp add: is_digit_not_upper)
  show "takeWhile is_upper (B @ D) = B"
    using assms(1) nd D by (simp add: takeWhile_append2)
  show "dropWhile is_upper (B @ D) = D"
    using assms(1) nd D by (simp add: dropWhile_append2)
qed

text \<open>The specification's shape, said with a decomposition of the token.\<close>

lemma spec_letters_digits_shape_iff:
  "spec_letters_digits_shape token =
     (\<exists>B D. token = B @ D \<and> B \<noteq> [] \<and> D \<noteq> [] \<and> (\<forall>c \<in> set B. is_upper c) \<and> (\<forall>c \<in> set D. is_digit c))"
proof
  assume "spec_letters_digits_shape token"
  then have "token = takeWhile is_upper token @ dropWhile is_upper token
      \<and> takeWhile is_upper token \<noteq> [] \<and> dropWhile is_upper token \<noteq> []
      \<and> (\<forall>c \<in> set (takeWhile is_upper token). is_upper c)
      \<and> (\<forall>c \<in> set (dropWhile is_upper token). is_digit c)"
    by (auto simp: spec_letters_digits_shape_def Let_def list_all_iff dest: set_takeWhileD)
  then show "\<exists>B D. token = B @ D \<and> B \<noteq> [] \<and> D \<noteq> [] \<and> (\<forall>c \<in> set B. is_upper c)
      \<and> (\<forall>c \<in> set D. is_digit c)"
    by blast
next
  assume "\<exists>B D. token = B @ D \<and> B \<noteq> [] \<and> D \<noteq> [] \<and> (\<forall>c \<in> set B. is_upper c)
      \<and> (\<forall>c \<in> set D. is_digit c)"
  then obtain B D where t: "token = B @ D" and B: "B \<noteq> []" "\<forall>c \<in> set B. is_upper c"
    and D: "D \<noteq> []" "\<forall>c \<in> set D. is_digit c"
    by blast
  from split_letters_digits [OF B(2) D] B(1) D show "spec_letters_digits_shape token"
    unfolding t spec_letters_digits_shape_def Let_def by (simp add: list_all_iff)
qed

lemma re_match_code_append:
  assumes "B \<noteq> []" and "\<forall>c \<in> set B. is_upper c" and "D \<noteq> []" and "\<forall>c \<in> set D. is_digit c"
  shows "re_match_code (B @ D) = Some (B, D)"
proof -
  note t = split_letters_digits(1) [OF assms(2-4)]
  note r = split_letters_digits(2) [OF assms(2-4)]
  have td: "takeWhile is_digit D = D" using assms(4) by (simp add: takeWhile_eq_all_conv)
  have dd: "dropWhile is_digit D = []" using assms(4) by simp
  show ?thesis
    unfolding re_match_code_def Let_def t r td dd using assms(1,3) by simp
qed

lemma ALTERATION_CODES_keys:
  "map fst ALTERATION_CODES_items =
     [
      ''LTP'', ''RTP'', ''TPM'', ''TPW'', ''LHP'', ''RHP'', ''HPW'', ''LSP'', ''RSP'', ''SPW'',
      ''SC'', ''L_T45'', ''R_T45'', ''LCH'', ''LCV'', ''LCP'', ''RCH'', ''RCV'', ''RCP'', ''LWH'',
      ''LWV'', ''LWP'', ''RWH'', ''RWV'', ''RWP'', ''LEH'', ''LEV'', ''LEP'', ''REH'', ''REV'',
      ''REP'', ''RWIP'', ''X5'', ''X8'', ''FL'', ''FR'', ''AH'', ''BH'', ''CH'', ''DH'',
      ''EH'', ''AV'', ''BV'', ''CV'', ''DV'', ''EV'', ''AP'', ''BP'', ''CP'', ''DP'',
      ''EP'', ''Z5'', ''Z6'', ''Z8'', ''Z12'', ''XA'', ''XB'', ''XC'', ''XD'', ''XE'',
      ''YA'', ''YB'', ''YC'', ''YD'', ''YE'', ''LDH'', ''LDV'', ''RDH'', ''RDV'', ''LSH'',
      ''LSV'', ''RSH'', ''RSV'', ''LMH'', ''RMH'', ''JLP'', ''KLP'', ''LTS'', ''RTS'', ''TSW'',
      ''CW'', ''ZZZ'', ''LL'']"
  by (simp add: ALTERATION_CODES_items_def)

lemma ALTERATION_CODES_dom:
  "(ALTERATION_CODES k \<noteq> None) = (k \<in> set (map fst ALTERATION_CODES_items))"
  by (simp add: ALTERATION_CODES_def map_of_eq_None_iff)

lemma table_key_shapes:
  "list_all (\<lambda>k. dropWhile is_upper k = [] \<or> takeWhile is_upper k \<in> set [''X'', ''Z'', ''L'', ''R''])
     (map fst ALTERATION_CODES_items)"
  unfolding ALTERATION_CODES_keys by code_simp

lemma table_key_shape:
  assumes "ALTERATION_CODES k = Some v"
  shows "dropWhile is_upper k = [] \<or> takeWhile is_upper k \<in> set [''X'', ''Z'', ''L'', ''R'']"
proof -
  have "k \<in> set (map fst ALTERATION_CODES_items)"
    using assms ALTERATION_CODES_dom [of k] by simp
  with table_key_shapes show ?thesis
    unfolding list_all_iff by blast
qed

lemma suffixed_not_key:
  assumes "\<forall>c \<in> set B. is_upper c" and "B \<notin> set [''X'', ''Z'', ''L'', ''R'']"
    and "D \<noteq> []" and "\<forall>c \<in> set D. is_digit c"
  shows "ALTERATION_CODES (B @ D) = None"
proof (rule ccontr)
  assume "ALTERATION_CODES (B @ D) \<noteq> None"
  then obtain v where v: "ALTERATION_CODES (B @ D) = Some v" by auto
  note t = split_letters_digits(1) [OF assms(1,3,4)]
  note r = split_letters_digits(2) [OF assms(1,3,4)]
  from table_key_shape [OF v] t r assms(2,3) show False by simp
qed

lemma parse_suffixed:
  assumes "B \<noteq> []" and "\<forall>c \<in> set B. is_upper c" and "B \<notin> set [''X'', ''Z'', ''L'', ''R'']"
    and "D \<noteq> []" and "\<forall>c \<in> set D. is_digit c"
    and "ALTERATION_CODES B = Some description"
  shows "parse_alteration_code (B @ D) =
           (if B \<in> set position_bases then (description, Some (D @ ''mm from left end''))
            else if B \<in> set [''JLP'', ''KLP''] then (description, Some (''Hole pitch: '' @ D @ ''mm''))
            else if B = ''ZZZ'' then (description, Some (''Serial: '' @ D))
            else if B = ''LL'' then (description, Some (''Unit: '' @ D))
            else (description, Some D))"
proof -
  have nk: "ALTERATION_CODES (B @ D) = None"
    using assms(2-5) by (intro suffixed_not_key)
  have m: "re_match_code (B @ D) = Some (B, D)"
    using assms(1,2,4,5) by (intro re_match_code_append)
  show ?thesis
    unfolding parse_alteration_code_def nk m using assms(6) by simp
qed

lemma position_bases_known:
  "list_all (\<lambda>B. B \<noteq> [] \<and> list_all is_upper B \<and> B \<notin> set [''X'', ''Z'', ''L'', ''R'']
                 \<and> B \<in> set (map fst ALTERATION_CODES_items))
     (position_bases @ [''JLP'', ''KLP'', ''ZZZ'', ''LL''])"
  unfolding ALTERATION_CODES_keys by code_simp

lemma parse_known_key:
  "ALTERATION_CODES code = Some description \<Longrightarrow> parse_alteration_code code = (description, None)"
  by (simp add: parse_alteration_code_def)

lemma shaped_keys_lookup:
  "map ALTERATION_CODES [''Z5'', ''Z6'', ''Z8'', ''Z12'', ''X5'', ''X8''] =
     [Some ''Counterbore in Specified Position (Z5, d=5.5mm)'',
      Some ''Counterbore in Specified Position (Z6, d=6.5mm)'',
      Some ''Counterbore in Specified Position (Z8, d=9mm)'',
      Some ''Counterbore in Specified Position (Z12, d=13mm)'',
      Some ''Wrench Hole Diameter Specification (5mm)'',
      Some ''Wrench Hole Diameter Specification (8mm)'']"
  by code_simp

lemma shaped_keys_match:
  "map re_match_code [''Z5'', ''Z6'', ''Z8'', ''Z12'', ''X5'', ''X8''] =
     [Some (''Z'', ''5''), Some (''Z'', ''6''), Some (''Z'', ''8''), Some (''Z'', ''12''),
      Some (''X'', ''5''), Some (''X'', ''8'')]"
  by code_simp

lemma lookup_LTP: "ALTERATION_CODES ''LTP'' = Some ''Left End Tapping (Center Hole)''"
  by code_simp

lemma known_base:
  assumes "B \<in> set (position_bases @ [''JLP'', ''KLP'', ''ZZZ'', ''LL''])"
  shows "B \<noteq> []" and "\<forall>c \<in> set B. is_upper c" and "B \<notin> set [''X'', ''Z'', ''L'', ''R'']"
    and "\<exists>description. ALTERATION_CODES B = Some description"
proof -
  from position_bases_known assms
  have k: "B \<noteq> [] \<and> list_all is_upper B \<and> B \<notin> set [''X'', ''Z'', ''L'', ''R'']
           \<and> B \<in> set (map fst ALTERATION_CODES_items)"
    unfolding list_all_iff by blast
  then show "B \<noteq> []" and "\<forall>c \<in> set B. is_upper c" and "B \<notin> set [''X'', ''Z'', ''L'', ''R'']"
    by (simp_all add: list_all_iff)
  from k have "B \<in> set (map fst ALTERATION_CODES_items)" by blast
  then have "ALTERATION_CODES B \<noteq> None"
    by (rule iffD2 [OF ALTERATION_CODES_dom])
  then show "\<exists>description. ALTERATION_CODES B = Some description" by auto
qed

lemma parse_known_base:
  assumes "B \<in> set (position_bases @ [''JLP'', ''KLP'', ''ZZZ'', ''LL''])"
    and "D \<noteq> []" and "\<forall>c \<in> set D. is_digit c"
  shows "\<exists>description. ALTERATION_CODES B = Some description \<and>
           parse_alteration_code (B @ D) =
             (if B \<in> set position_bases then (description, Some (D @ ''mm from left end''))
              else if B \<in> set [''JLP'', ''KLP''] then (description, Some (''Hole pitch: '' @ D @ ''mm''))
              else if B = ''ZZZ'' then (description, Some (''Serial: '' @ D))
              else if B = ''LL'' then (description, Some (''Unit: '' @ D))
              else (description, Some D))"
proof -
  from known_base(4) [OF assms(1)] obtain description
    where d: "ALTERATION_CODES B = Some description" by blast
  from parse_suffixed [OF known_base(1-3) [OF assms(1)] assms(2,3) d] d
  show ?thesis by blast
qed

lemma claimed_position_bases:
  "set [''AH'', ''BH'', ''CH'', ''DH'', ''EH'', ''AV'', ''BV'', ''CV'', ''DV'', ''EV'',
        ''AP'', ''BP'', ''CP'', ''DP'', ''EP'', ''XA'', ''XB'', ''XC'', ''XD'', ''XE'',
        ''YA'', ''YB'', ''YC'', ''YD'', ''YE''] = set position_bases"
  unfolding position_bases_def by code_simp

lemma other_bases:
  "list_all (\<lambda>B. B \<notin> set position_bases) [''JLP'', ''KLP'', ''ZZZ'', ''LL'']"
  "''ZZZ'' \<notin> set [''JLP'', ''KLP'']" "''LL'' \<notin> set [''JLP'', ''KLP'']" "''LL'' \<noteq> ''ZZZ''"
  unfolding position_bases_def by simp_all

lemma lookup_ZZZ_LL:
  "ALTERATION_CODES ''ZZZ'' = Some ''Labeling (Serial Number)''"
  "ALTERATION_CODES ''LL'' = Some ''Labeling (Unit Number)''"
  "ALTERATION_CODES ''AV'' = Some ''Wrench Hole in Specified Position (Vertical, A position)''"
  by code_simp+

subsection \<open>Tokens that are not in the table\<close>

text \<open>
  Away from a final line feed the regular expression accepts exactly the tokens of the
  specification's shape, and the two fallbacks of the parser are as the specification
  describes them.
\<close>

lemma re_match_code_shape:
  assumes "code = [] \<or> last code \<noteq> CHR 0x0A"
  shows "re_match_code code =
           (if spec_letters_digits_shape code
            then Some (takeWhile is_upper code, dropWhile is_upper code) else None)"
proof -
  define rest where "rest = dropWhile is_upper code"
  define tail where "tail = dropWhile is_digit rest"
  have code: "code = takeWhile is_upper code @ takeWhile is_digit rest @ tail"
    by (simp add: rest_def tail_def)
  have no_lf: "tail \<noteq> [CHR 0x0A]"
  proof
    assume "tail = [CHR 0x0A]"
    with code have "code = (takeWhile is_upper code @ takeWhile is_digit rest) @ [CHR 0x0A]"
      by simp
    then have "code \<noteq> [] \<and> last code = CHR 0x0A"
      by (metis snoc_eq_iff_butlast)
    with assms show False by simp
  qed
  show ?thesis
  proof (cases "tail = []")
    case True
    then have all: "list_all is_digit rest"
      by (simp add: tail_def list_all_iff)
    from True have tk: "takeWhile is_digit rest = rest"
      by (simp add: tail_def takeWhile_eq_all_conv)
    show ?thesis
      unfolding re_match_code_def spec_letters_digits_shape_def Let_def
        rest_def [symmetric] tail_def [symmetric] tk
      using True all by simp
  next
    case False
    then have "\<not> list_all is_digit rest"
      by (simp add: tail_def list_all_iff)
    with False no_lf show ?thesis
      unfolding re_match_code_def spec_letters_digits_shape_def Let_def
        rest_def [symmetric] tail_def [symmetric]
      by simp
  qed
qed

lemma parse_unknown_token:
  assumes "ALTERATION_CODES code = None" and "re_match_code code = None"
  shows "parse_alteration_code code = (''Unknown alteration code: '' @ code, None)"
  using assms by (simp add: parse_alteration_code_def)

lemma parse_unknown_base:
  assumes "ALTERATION_CODES code = None" and "re_match_code code = Some (base_code, numeric_value)"
    and "ALTERATION_CODES base_code = None"
  shows "parse_alteration_code code = (''Unknown alteration code: '' @ base_code, Some numeric_value)"
  using assms by (simp add: parse_alteration_code_def)

lemma unknown_contains:
  "str_contains ''Unknown alteration code'' (''Unknown alteration code: '' @ t)"
  by (simp add: startswith_def)

lemma unknown_tokens_without_line_feed:
  assumes "code = [] \<or> last code \<noteq> CHR 0x0A" and "ALTERATION_CODES code = None"
  shows "\<not> spec_letters_digits_shape code \<Longrightarrow>
           parse_alteration_code code = (''Unknown alteration code: '' @ code, None)"
    and "spec_letters_digits_shape code \<Longrightarrow> ALTERATION_CODES (takeWhile is_upper code) = None \<Longrightarrow>
           parse_alteration_code code =
             (''Unknown alteration code: '' @ takeWhile is_upper code, Some (dropWhile is_upper code))"
proof -
  assume "\<not> spec_letters_digits_shape code"
  then have "re_match_code code = None"
    using re_match_code_shape [OF assms(1)] by simp
  with assms(2) show "parse_alteration_code code = (''Unknown alteration code: '' @ code, None)"
    by (rule parse_unknown_token)
next
  assume "spec_letters_digits_shape code" and b: "ALTERATION_CODES (takeWhile is_upper code) = None"
  then have "re_match_code code = Some (takeWhile is_upper code, dropWhile is_upper code)"
    using re_match_code_shape [OF assms(1)] by simp
  from parse_unknown_base [OF assms(2) this b]
  show "parse_alteration_code code =
          (''Unknown alteration code: '' @ takeWhile is_upper code, Some (dropWhile is_upper code))" .
qed

subsection \<open>The legacy rules and the generated tables\<close>

lemma voron_rules_CH:
  "(voron_rules len a q bs = Some ''C/H'') =
     (len = 470 \<and> py_in ''TPW'' a \<and> \<not> py_in ''AH235'' a
      \<and> bs \<noteq> Some ''250mm'' \<and> bs \<noteq> Some ''300mm'' \<and> bs \<noteq> Some ''350mm'')"
  by (simp add: voron_rules_def)

lemma specs_250:
  "map (\<lambda>s. (spec_length s, spec_alterations s, spec_quantity s))
     (get_extrusion_specs (BuildVolume_init 250 250 250 (Some ''250x250x250''))) =
   [(370, [''TPW''], 9), (500, [''LCP'', ''RCP'', ''AV360''], 4), (370, [''AV185'', ''TPW''], 1),
    (240, [], 1), (330, [], 1), (370, [''AH235'', ''TPW''], 1), (232, [''AH235''], 1), (330, [], 1)]"
  by (simp add: get_extrusion_specs_def BuildVolume_init_def Let_def py_eval)

lemma specs_300:
  "map (\<lambda>s. (spec_length s, spec_alterations s, spec_quantity s))
     (get_extrusion_specs (BuildVolume_init 300 300 250 (Some ''300x300x250''))) =
   [(420, [''TPW''], 9), (500, [''LCP'', ''RCP'', ''AV360''], 4), (420, [''AV210'', ''TPW''], 1),
    (290, [], 1), (380, [], 1), (420, [''AH235'', ''TPW''], 1), (282, [''AH235''], 1), (330, [], 1)]"
  by (simp add: get_extrusion_specs_def BuildVolume_init_def Let_def py_eval)

lemma specs_350:
  "map (\<lambda>s. (spec_length s, spec_alterations s, spec_quantity s))
     (get_extrusion_specs (BuildVolume_init 350 350 250 (Some ''350x350x250''))) =
   [(470, [''TPW''], 9), (500, [''LCP'', ''RCP'', ''AV360''], 4), (470, [''AV235'', ''TPW''], 1),
    (340, [], 1), (430, [], 1), (470, [''AH235'', ''TPW''], 1), (332, [''AH235''], 1), (330, [], 1)]"
  by (simp add: get_extrusion_specs_def BuildVolume_init_def Let_def py_eval)

lemma classify_specs_split:
  "map (\<lambda>s. get_extrusion_letter
              (decode_misumi_name
                 (encode_part_number ''HFSB5'' ''2020'' (spec_length s) (Some (spec_alterations s))))
              (spec_quantity s) (Some V)) specs =
   map (\<lambda>(len, alts, q). get_extrusion_letter
                      (decode_misumi_name (encode_part_number ''HFSB5'' ''2020'' len (Some alts)))
                      q (Some V))
     (map (\<lambda>s. (spec_length s, spec_alterations s, spec_quantity s)) specs)"
  by (simp add: comp_def)

section \<open>The claims\<close>

text \<open>
  Claim C1 (classifier and generator). The claim asks that every generated spec, encoded
  with series \<^verbatim>\<open>HFSB5\<close> and size \<^verbatim>\<open>2020\<close> as the encoder does, decoded again and classified
  with its own quantity and build volume, gets its own role letter back. The tables below
  are what the classifier answers for the roles A to H of the three supported volumes:
  A to E come back, F, G and H do not. The generator gives F the tokens \<^verbatim>\<open>AH235, TPW\<close>,
  G the token \<^verbatim>\<open>AH235\<close> and H none, while the classifier wants F without \<^verbatim>\<open>TPW\<close> and
  G and H with \<^verbatim>\<open>LTP\<close>.
\<close>

theorem classify_generated_specs:
  "map (\<lambda>V. map (\<lambda>s. get_extrusion_letter
                      (decode_misumi_name
                         (encode_part_number ''HFSB5'' ''2020'' (spec_length s) (Some (spec_alterations s))))
                      (spec_quantity s) (Some V))
                (get_extrusion_specs V))
       get_supported_build_volumes =
   [[Some ''A'', Some ''B'', Some ''C'', Some ''D'', Some ''E'', None, None, Some ''E''],
    [Some ''A'', Some ''B'', Some ''C'', Some ''D'', Some ''E'', None, None, None],
    [Some ''A'', Some ''B'', Some ''C'', Some ''D'', Some ''E'', Some ''C'', None, None]]"
proof -
  have r250: "map (\<lambda>s. get_extrusion_letter
                      (decode_misumi_name
                         (encode_part_number ''HFSB5'' ''2020'' (spec_length s) (Some (spec_alterations s))))
                      (spec_quantity s) (Some (BuildVolume_init 250 250 250 (Some ''250x250x250''))))
                (get_extrusion_specs (BuildVolume_init 250 250 250 (Some ''250x250x250''))) =
     [Some ''A'', Some ''B'', Some ''C'', Some ''D'', Some ''E'', None, None, Some ''E'']"
    unfolding classify_specs_split specs_250
    by (simp add: classify_encoded py_eval rules_eval BuildVolume_init_def)
  have r300: "map (\<lambda>s. get_extrusion_letter
                      (decode_misumi_name
                         (encode_part_number ''HFSB5'' ''2020'' (spec_length s) (Some (spec_alterations s))))
                      (spec_quantity s) (Some (BuildVolume_init 300 300 250 (Some ''300x300x250''))))
                (get_extrusion_specs (BuildVolume_init 300 300 250 (Some ''300x300x250''))) =
     [Some ''A'', Some ''B'', Some ''C'', Some ''D'', Some ''E'', None, None, None]"
    unfolding classify_specs_split specs_300
    by (simp add: classify_encoded py_eval rules_eval BuildVolume_init_def)
  have r350: "map (\<lambda>s. get_extrusion_letter
                      (decode_misumi_name
                         (encode_part_number ''HFSB5'' ''2020'' (spec_length s) (Some (spec_alterations s))))
                      (spec_quantity s) (Some (BuildVolume_init 350 350 250 (Some ''350x350x250''))))
                (get_extrusion_specs (BuildVolume_init 350 350 250 (Some ''350x350x250''))) =
     [Some ''A'', Some ''B'', Some ''C'', Some ''D'', Some ''E'', Some ''C'', None, None]"
    unfolding classify_specs_split specs_350
    by (simp add: classify_encoded py_eval rules_eval BuildVolume_init_def)
  show ?thesis
    unfolding get_supported_build_volumes_def list.map r250 r300 r350 ..
qed

text \<open>
  Claim C2 (round trip of Encode and Parse). As stated, for every series, size, length
  and token list, the claim fails: a hyphen inside a field is taken for a separator.
  What holds is an equivalence. Parsing the encoded string gives back the series, the size
  code, \<^verbatim>\<open>str(length)\<close> and the token list (the empty list for an omitted or empty one)
  exactly when neither the series, the size code nor any token contains a hyphen and the
  length is not negative.
\<close>

theorem encode_decode_roundtrip:
  "(let d = decode_misumi_name (encode_part_number series size_code len alterations);
        alts = (case alterations of None \<Rightarrow> [] | Some a \<Rightarrow> a)
    in d ''series'' = Some (PStr series) \<and> d ''size_raw'' = Some (PStr size_code)
       \<and> d ''length_raw'' = Some (PStr (py_str len)) \<and> d ''alterations'' = Some (PList alts))
   = (CHR ''-'' \<notin> set series \<and> CHR ''-'' \<notin> set size_code \<and> 0 \<le> len
      \<and> (\<forall>a \<in> set (case alterations of None \<Rightarrow> [] | Some a \<Rightarrow> a). CHR ''-'' \<notin> set a))"
  (is "?L = ?R")
proof
  define alts where "alts = (case alterations of None \<Rightarrow> [] | Some a \<Rightarrow> a)"
  define s where "s = encode_part_number series size_code len alterations"
  assume L: ?L
  then have f: "decode_misumi_name s ''series'' = Some (PStr series)"
      "decode_misumi_name s ''size_raw'' = Some (PStr size_code)"
      "decode_misumi_name s ''length_raw'' = Some (PStr (py_str len))"
      "decode_misumi_name s ''alterations'' = Some (PList alts)"
    by (simp_all add: Let_def s_def alts_def)
  have "\<not> length (py_split CHR ''-'' s) < 3"
    using f(1) decode_error_lookup [of s] by auto
  then obtain a b c r where sp: "py_split CHR ''-'' s = a # b # c # r"
    by (cases "py_split CHR ''-'' s" rule: list.exhaust; simp;
        metis (no_types) Suc_less_eq length_Cons less_Suc_eq_0_disj list.exhaust list.size(3) numeral_3_eq_3)
  from decode_misumi_name_fields [OF sp] f
  have eq: "a = series" "b = size_code" "c = py_str len" "r = alts" by simp_all
  have nosep: "\<forall>p \<in> set (a # b # c # r). CHR ''-'' \<notin> set p"
    using py_split_parts_no_sep [of _ "CHR ''-''" s] sp by metis
  have "0 \<le> len"
  proof (rule ccontr)
    assume "\<not> 0 \<le> len"
    then have "CHR ''-'' \<in> set (py_str len)" by (simp add: py_str_hyphen_neg)
    with nosep eq show False by simp
  qed
  with nosep eq show ?R by (simp add: alts_def)
next
  define alts where "alts = (case alterations of None \<Rightarrow> [] | Some a \<Rightarrow> a)"
  assume R: ?R
  then have "py_split CHR ''-'' (encode_part_number series size_code len alterations) =
           series # size_code # py_str len # alts"
    by (intro decode_of_encode) (auto simp: alts_def)
  from decode_misumi_name_fields [OF this] show ?L
    by (simp add: Let_def alts_def)
qed

theorem encode_decode_roundtrip_witness:
  "(let d = decode_misumi_name (encode_part_number ''HFSB5'' ''2020'' 500 (Some [''LCP'', ''RCP'', ''AV360'']))
    in d ''series'' = Some (PStr ''HFSB5'') \<and> d ''size_raw'' = Some (PStr ''2020'')
       \<and> d ''length_raw'' = Some (PStr ''500'') \<and> d ''alterations'' = Some (PList [''LCP'', ''RCP'', ''AV360'']))
   \<and> CHR ''-'' \<notin> set ''HFSB5'' \<and> CHR ''-'' \<notin> set ''2020'' \<and> (0::int) \<le> 500
   \<and> CHR ''-'' \<notin> set ''LCP'' \<and> CHR ''-'' \<notin> set ''RCP'' \<and> CHR ''-'' \<notin> set ''AV360''"
  using encode_decode_roundtrip [of "''HFSB5''" "''2020''" 500 "Some [''LCP'', ''RCP'', ''AV360'']"]
  by (simp add: Let_def py_str_def nat_digits.simps digit_char_def)

text \<open>
  The source itself mentions L-hole codes written \<^verbatim>\<open>JLP1100-H2\<close>; such a token comes back
  as two.
\<close>

theorem encode_decode_hyphen_counterexample:
  "decode_misumi_name (encode_part_number ''HFSB5'' ''2020'' 500 (Some [''JLP1100-H2''])) ''alterations''
     = Some (PList [''JLP1100'', ''H2''])
   \<and> decode_misumi_name (encode_part_number ''HFSB5'' ''2020'' 500 (Some [''JLP1100-H2''])) ''alterations''
     \<noteq> Some (PList [''JLP1100-H2''])"
  by (simp add: decode_misumi_name_def encode_part_number_def Let_def py_str_def nat_digits.simps digit_char_def)

text \<open>
  Claim C3 (format error). The decoder returns a dictionary whose only key is
  \<^verbatim>\<open>error\<close> exactly when the part number has fewer than three hyphen-separated segments.
  With three or more segments the keys are the eight normal fields, \<^verbatim>\<open>error\<close> is not
  among them, \<^verbatim>\<open>part_number\<close> is the input, and there are as many alteration descriptions
  as alterations. The part number \<^verbatim>\<open>HFSB5-2020\<close> gives the error result.
\<close>

theorem decode_error_iff_few_segments:
  "(dom (decode_misumi_name s) = {''error''}) = (length (py_split CHR ''-'' s) < 3)
   \<and> (3 \<le> length (py_split CHR ''-'' s) \<longrightarrow>
        dom (decode_misumi_name s) =
          {''part_number'', ''series'', ''size'', ''size_raw'', ''length'', ''length_raw'',
           ''alterations'', ''alteration_descriptions''}
        \<and> ''error'' \<notin> dom (decode_misumi_name s)
        \<and> decode_misumi_name s ''part_number'' = Some (PStr s)
        \<and> (\<exists>alts descs. decode_misumi_name s ''alterations'' = Some (PList alts)
               \<and> decode_misumi_name s ''alteration_descriptions'' = Some (PList descs)
               \<and> length descs = length alts))
   \<and> dom (decode_misumi_name ''HFSB5-2020'') = {''error''}"
proof (intro conjI impI)
  show "(dom (decode_misumi_name s) = {''error''}) = (length (py_split CHR ''-'' s) < 3)"
  proof (cases "length (py_split CHR ''-'' s) < 3")
    case True
    then show ?thesis by (simp add: dom_decode_error)
  next
    case False
    have "''error'' \<notin> dom (decode_misumi_name s)"
      using decode_ok_lookup(1) [OF False] by (simp add: domIff)
    then have "dom (decode_misumi_name s) \<noteq> {''error''}" by blast
    with False show ?thesis by simp
  qed
next
  assume "3 \<le> length (py_split CHR ''-'' s)"
  then have ge: "\<not> length (py_split CHR ''-'' s) < 3" by simp
  show "dom (decode_misumi_name s) =
          {''part_number'', ''series'', ''size'', ''size_raw'', ''length'', ''length_raw'',
           ''alterations'', ''alteration_descriptions''}"
    using ge by (rule dom_decode_ok)
  show "''error'' \<notin> dom (decode_misumi_name s)"
    using decode_ok_lookup(1) [OF ge] by (simp add: domIff)
  show "decode_misumi_name s ''part_number'' = Some (PStr s)"
    using ge by (rule decode_ok_lookup(2))
  show "\<exists>alts descs. decode_misumi_name s ''alterations'' = Some (PList alts)
               \<and> decode_misumi_name s ''alteration_descriptions'' = Some (PList descs)
               \<and> length descs = length alts"
    using ge by (rule decode_ok_lookup(3))
next
  have "length (py_split CHR ''-'' ''HFSB5-2020'') < 3" by simp
  then show "dom (decode_misumi_name ''HFSB5-2020'') = {''error''}"
    by (rule dom_decode_error)
qed

theorem decode_error_iff_few_segments_witness:
  "3 \<le> length (py_split CHR ''-'' ''HFSB5-2020-500-LCP-RCP-AV360'')
   \<and> dom (decode_misumi_name ''HFSB5-2020-500-LCP-RCP-AV360'') \<noteq> {''error''}
   \<and> ''error'' \<notin> dom (decode_misumi_name ''HFSB5-2020-500-LCP-RCP-AV360'')
   \<and> decode_misumi_name ''HFSB5-2020-500-LCP-RCP-AV360'' ''part_number''
       = Some (PStr ''HFSB5-2020-500-LCP-RCP-AV360'')"
proof -
  have h: "3 \<le> length (py_split CHR ''-'' ''HFSB5-2020-500-LCP-RCP-AV360'')" by simp
  have n: "\<not> length (py_split CHR ''-'' ''HFSB5-2020-500-LCP-RCP-AV360'') < 3" by simp
  from decode_error_iff_few_segments [of "''HFSB5-2020-500-LCP-RCP-AV360''"] h n
  show ?thesis by blast
qed

text \<open>
  Claim C4 (the generated table). For every build volume with x-dimension \<open>X\<close> the
  generator returns the eight roles A to H in this order, with lengths \<open>X + 120\<close>, 500,
  \<open>X + 120\<close>, \<open>X - 10\<close>, \<open>X + 80\<close>, \<open>X + 120\<close>, \<open>X - 18\<close>, 330, quantities
  9, 4, 1, 1, 1, 1, 1, 1 and the alteration lists of the table, where the position token of
  role C is \<^verbatim>\<open>AV\<close> followed by \<open>(X + 120) div 2\<close>. For 350 x 350 x 250 role A has length 470,
  quantity 9 and the list \<^verbatim>\<open>[TPW]\<close>, role B has length 500 and quantity 4, role H has length
  330 and quantity 1.
\<close>

theorem get_extrusion_specs_table:
  "map spec_letter (get_extrusion_specs bv) = [''A'', ''B'', ''C'', ''D'', ''E'', ''F'', ''G'', ''H'']
   \<and> map spec_length (get_extrusion_specs bv) =
       [bv_x bv + 120, 500, bv_x bv + 120, bv_x bv - 10, bv_x bv + 80, bv_x bv + 120, bv_x bv - 18, 330]
   \<and> map spec_quantity (get_extrusion_specs bv) = [9, 4, 1, 1, 1, 1, 1, 1]
   \<and> map spec_alterations (get_extrusion_specs bv) =
       [[''TPW''], [''LCP'', ''RCP'', ''AV360''], [''AV'' @ py_str ((bv_x bv + 120) div 2), ''TPW''],
        [], [], [''AH235'', ''TPW''], [''AH235''], []]
   \<and> map (\<lambda>s. (spec_letter s, spec_length s, spec_quantity s, spec_alterations s))
         (get_extrusion_specs (BuildVolume_init 350 350 250 None)) =
       [(''A'', 470, 9, [''TPW'']), (''B'', 500, 4, [''LCP'', ''RCP'', ''AV360'']),
        (''C'', 470, 1, [''AV235'', ''TPW'']), (''D'', 340, 1, []), (''E'', 430, 1, []),
        (''F'', 470, 1, [''AH235'', ''TPW'']), (''G'', 332, 1, [''AH235'']), (''H'', 330, 1, [])]"
  by (simp add: get_extrusion_specs_def BuildVolume_init_def Let_def py_str_def nat_digits.simps digit_char_def)

text \<open>
  Claim C5 (no supported build volume). When no build volume is passed, or one whose
  x-dimension is none of 250, 300 and 350, the classifier answers B, H or \<^verbatim>\<open>None\<close>, whatever
  the decoded part and the quantity are; the size-dependent letters A, C, D, E, F and G
  cannot come out. The classifier is a total function of its arguments: the two conversions
  that can raise are caught in the source and are branches here.
\<close>

theorem classify_without_supported_volume:
  assumes "build_volume = None \<or> (\<exists>bv. build_volume = Some bv \<and> bv_x bv \<notin> {250, 300, 350})"
  shows "get_extrusion_letter decoded quantity build_volume \<in> {Some ''B'', Some ''H'', None}"
proof -
  have "build_size_of build_volume = None"
    using assms by (rule build_size_of_unsupported)
  then show ?thesis
    using trident_rules_no_size
    by (auto simp: get_extrusion_letter_def Let_def split: option.splits)
qed

theorem classify_without_supported_volume_witness:
  "bv_x (BuildVolume_init 400 400 250 None) \<notin> {250, 300, 350}
   \<and> get_extrusion_letter (decode_misumi_name ''HFSB5-2020-520-TPW'') 9
        (Some (BuildVolume_init 400 400 250 None)) \<in> {Some ''B'', Some ''H'', None}"
proof -
  have h: "bv_x (BuildVolume_init 400 400 250 None) \<notin> {250, 300, 350}"
    by (simp add: BuildVolume_init_def)
  then have "Some (BuildVolume_init 400 400 250 None) = None
      \<or> (\<exists>bv. Some (BuildVolume_init 400 400 250 None) = Some bv \<and> bv_x bv \<notin> {250, 300, 350})"
    by blast
  from classify_without_supported_volume [OF this] h show ?thesis by blast
qed

text \<open>
  Claim C6 (role H). A part that is no error result, whose raw length reads as the
  integer 330, whose alterations contain \<^verbatim>\<open>LTP\<close> and whose quantity is 1 is classified H,
  for every build volume and also without one: at length 330 neither the G rule, which
  stands before the H rule, nor any earlier rule can fire, since none of the supported
  sizes gives \<open>X - 18 = 330\<close>. The part \<^verbatim>\<open>HFSB5-2020-330-LTP\<close> with quantity 1 and the
  volume 250 x 250 x 250 is classified H.
\<close>

theorem classify_length_330_LTP:
  assumes "decoded ''error'' = None"
    and "py_int_val (dict_get decoded ''length_raw'' (PStr [])) = Some 330"
    and "py_in ''LTP'' (dict_get decoded ''alterations'' (PList []))"
  shows "get_extrusion_letter decoded 1 build_volume = Some ''H''
         \<and> \<not> length_matches (build_size_of build_volume) 330 (- 18)
         \<and> get_extrusion_letter (decode_misumi_name ''HFSB5-2020-330-LTP'') 1
              (Some (BuildVolume_init 250 250 250 None)) = Some ''H''"
proof (intro conjI)
  show "get_extrusion_letter decoded 1 build_volume = Some ''H''"
    using assms by (simp add: get_extrusion_letter_def Let_def trident_rules_H)
  show "\<not> length_matches (build_size_of build_volume) 330 (- 18)"
    using length_matches_cases [of "build_size_of build_volume" 330 "- 18"] by auto
  show "get_extrusion_letter (decode_misumi_name ''HFSB5-2020-330-LTP'') 1
          (Some (BuildVolume_init 250 250 250 None)) = Some ''H''"
  proof -
    have "py_split CHR ''-'' ''HFSB5-2020-330-LTP'' = ''HFSB5'' # ''2020'' # ''330'' # [''LTP'']"
      by simp
    from decode_misumi_name_fields [OF this] show ?thesis
      by (simp add: get_extrusion_letter_def dict_get_def py_eval trident_rules_H)
  qed
qed

theorem classify_length_330_LTP_witness:
  "decode_misumi_name ''HFSB5-2020-330-RTP-LTP'' ''error'' = None
   \<and> py_int_val (dict_get (decode_misumi_name ''HFSB5-2020-330-RTP-LTP'') ''length_raw'' (PStr [])) = Some 330
   \<and> py_in ''LTP'' (dict_get (decode_misumi_name ''HFSB5-2020-330-RTP-LTP'') ''alterations'' (PList []))
   \<and> get_extrusion_letter (decode_misumi_name ''HFSB5-2020-330-RTP-LTP'') 1
        (Some (BuildVolume_init 350 350 250 None)) = Some ''H''"
proof -
  have "py_split CHR ''-'' ''HFSB5-2020-330-RTP-LTP'' = ''HFSB5'' # ''2020'' # ''330'' # [''RTP'', ''LTP'']"
    by simp
  note f = decode_misumi_name_fields [OF this]
  have h1: "decode_misumi_name ''HFSB5-2020-330-RTP-LTP'' ''error'' = None"
    by (rule f(1))
  have h2: "py_int_val (dict_get (decode_misumi_name ''HFSB5-2020-330-RTP-LTP'') ''length_raw'' (PStr []))
              = Some 330"
    by (simp add: f(4) dict_get_def py_eval)
  have h3: "py_in ''LTP'' (dict_get (decode_misumi_name ''HFSB5-2020-330-RTP-LTP'') ''alterations'' (PList []))"
    by (simp add: f(5) dict_get_def)
  from classify_length_330_LTP [OF h1 h2 h3, of "Some (BuildVolume_init 350 350 250 None)"] h1 h2 h3
  show ?thesis by blast
qed

text \<open>
  Claim C7 (table coverage). For every key of the alteration code table the parser returns
  the table's description and no qualifier. The exact lookup comes before the split into
  letters and digits: the keys \<^verbatim>\<open>Z5\<close>, \<^verbatim>\<open>Z6\<close>, \<^verbatim>\<open>Z8\<close>, \<^verbatim>\<open>Z12\<close>, \<^verbatim>\<open>X5\<close> and \<^verbatim>\<open>X8\<close> match the
  regular expression, and are still answered from the table, unsplit.
\<close>

theorem table_coverage:
  "(ALTERATION_CODES code = Some description \<longrightarrow>
      parse_alteration_code code = (description, None))
   \<and> map re_match_code [''Z5'', ''Z6'', ''Z8'', ''Z12'', ''X5'', ''X8''] =
       [Some (''Z'', ''5''), Some (''Z'', ''6''), Some (''Z'', ''8''), Some (''Z'', ''12''),
        Some (''X'', ''5''), Some (''X'', ''8'')]
   \<and> map parse_alteration_code [''Z5'', ''Z6'', ''Z8'', ''Z12'', ''X5'', ''X8''] =
       [(''Counterbore in Specified Position (Z5, d=5.5mm)'', None),
        (''Counterbore in Specified Position (Z6, d=6.5mm)'', None),
        (''Counterbore in Specified Position (Z8, d=9mm)'', None),
        (''Counterbore in Specified Position (Z12, d=13mm)'', None),
        (''Wrench Hole Diameter Specification (5mm)'', None),
        (''Wrench Hole Diameter Specification (8mm)'', None)]"
proof (intro conjI impI)
  assume "ALTERATION_CODES code = Some description"
  then show "parse_alteration_code code = (description, None)"
    by (rule parse_known_key)
next
  show "map re_match_code [''Z5'', ''Z6'', ''Z8'', ''Z12'', ''X5'', ''X8''] =
       [Some (''Z'', ''5''), Some (''Z'', ''6''), Some (''Z'', ''8''), Some (''Z'', ''12''),
        Some (''X'', ''5''), Some (''X'', ''8'')]"
    by (rule shaped_keys_match)
next
  show "map parse_alteration_code [''Z5'', ''Z6'', ''Z8'', ''Z12'', ''X5'', ''X8''] =
       [(''Counterbore in Specified Position (Z5, d=5.5mm)'', None),
        (''Counterbore in Specified Position (Z6, d=6.5mm)'', None),
        (''Counterbore in Specified Position (Z8, d=9mm)'', None),
        (''Counterbore in Specified Position (Z12, d=13mm)'', None),
        (''Wrench Hole Diameter Specification (5mm)'', None),
        (''Wrench Hole Diameter Specification (8mm)'', None)]"
    using shaped_keys_lookup by (simp add: parse_known_key)
qed

theorem table_coverage_witness:
  "ALTERATION_CODES ''LTP'' = Some ''Left End Tapping (Center Hole)''
   \<and> parse_alteration_code ''LTP'' = (''Left End Tapping (Center Hole)'', None)"
  using table_coverage [of "''LTP''" "''Left End Tapping (Center Hole)''"] lookup_LTP
  by blast

text \<open>
  Claim C8 (suffix decomposition). Let \<open>D\<close> be a non-empty string of decimal digits. For
  each of the twenty-five position bases \<open>B\<close> the token \<open>B @ D\<close> is parsed to the table's
  description of \<open>B\<close> with the qualifier \<open>D\<close> followed by \<^verbatim>\<open>mm from left end\<close>; for \<^verbatim>\<open>JLP\<close>
  and \<^verbatim>\<open>KLP\<close> the qualifier is \<^verbatim>\<open>Hole pitch: \<close>\<open>D\<close>\<^verbatim>\<open>mm\<close>, for \<^verbatim>\<open>ZZZ\<close> it is \<^verbatim>\<open>Serial: \<close>\<open>D\<close> and
  for \<^verbatim>\<open>LL\<close> it is \<^verbatim>\<open>Unit: \<close>\<open>D\<close>. The token \<^verbatim>\<open>ZZZ123\<close> gives the serial-number
  description with the qualifier \<^verbatim>\<open>Serial: 123\<close>.
\<close>

theorem suffix_decomposition:
  assumes "D \<noteq> []" and "\<forall>c \<in> set D. is_digit c"
  shows "(\<forall>B \<in> set [''AH'', ''BH'', ''CH'', ''DH'', ''EH'', ''AV'', ''BV'', ''CV'', ''DV'', ''EV'',
                     ''AP'', ''BP'', ''CP'', ''DP'', ''EP'', ''XA'', ''XB'', ''XC'', ''XD'', ''XE'',
                     ''YA'', ''YB'', ''YC'', ''YD'', ''YE''].
            \<exists>description. ALTERATION_CODES B = Some description
              \<and> parse_alteration_code (B @ D) = (description, Some (D @ ''mm from left end'')))
         \<and> (\<forall>B \<in> set [''JLP'', ''KLP''].
            \<exists>description. ALTERATION_CODES B = Some description
              \<and> parse_alteration_code (B @ D) = (description, Some (''Hole pitch: '' @ D @ ''mm'')))
         \<and> parse_alteration_code (''ZZZ'' @ D) = (''Labeling (Serial Number)'', Some (''Serial: '' @ D))
         \<and> parse_alteration_code (''LL'' @ D) = (''Labeling (Unit Number)'', Some (''Unit: '' @ D))
         \<and> parse_alteration_code ''ZZZ123'' = (''Labeling (Serial Number)'', Some ''Serial: 123'')"
proof (intro conjI ballI)
  fix B
  assume "B \<in> set [''AH'', ''BH'', ''CH'', ''DH'', ''EH'', ''AV'', ''BV'', ''CV'', ''DV'', ''EV'',
                     ''AP'', ''BP'', ''CP'', ''DP'', ''EP'', ''XA'', ''XB'', ''XC'', ''XD'', ''XE'',
                     ''YA'', ''YB'', ''YC'', ''YD'', ''YE'']"
  then have B: "B \<in> set position_bases"
    unfolding claimed_position_bases .
  then have "B \<in> set (position_bases @ [''JLP'', ''KLP'', ''ZZZ'', ''LL''])" by simp
  from parse_known_base [OF this assms] B
  show "\<exists>description. ALTERATION_CODES B = Some description
              \<and> parse_alteration_code (B @ D) = (description, Some (D @ ''mm from left end''))"
    by simp
next
  fix B
  assume a: "B \<in> set [''JLP'', ''KLP'']"
  then have n: "B \<notin> set position_bases"
    using other_bases(1) by auto
  from a have "B \<in> set (position_bases @ [''JLP'', ''KLP'', ''ZZZ'', ''LL''])" by auto
  from parse_known_base [OF this assms] a n
  show "\<exists>description. ALTERATION_CODES B = Some description
              \<and> parse_alteration_code (B @ D) = (description, Some (''Hole pitch: '' @ D @ ''mm''))"
    by simp
next
  have "''ZZZ'' \<in> set (position_bases @ [''JLP'', ''KLP'', ''ZZZ'', ''LL''])" by simp
  from parse_known_base [OF this assms] other_bases lookup_ZZZ_LL(1)
  show z: "parse_alteration_code (''ZZZ'' @ D) = (''Labeling (Serial Number)'', Some (''Serial: '' @ D))"
    by simp
next
  have "''LL'' \<in> set (position_bases @ [''JLP'', ''KLP'', ''ZZZ'', ''LL''])" by simp
  from parse_known_base [OF this assms] other_bases lookup_ZZZ_LL(2)
  show "parse_alteration_code (''LL'' @ D) = (''Labeling (Unit Number)'', Some (''Unit: '' @ D))"
    by simp
next
  have "''ZZZ'' \<in> set (position_bases @ [''JLP'', ''KLP'', ''ZZZ'', ''LL''])" by simp
  moreover have "''123'' \<noteq> []" "\<forall>c \<in> set ''123''. is_digit c"
    by (simp_all add: is_digit_def)
  ultimately have "\<exists>description. ALTERATION_CODES ''ZZZ'' = Some description \<and>
           parse_alteration_code (''ZZZ'' @ ''123'') =
             (if ''ZZZ'' \<in> set position_bases then (description, Some (''123'' @ ''mm from left end''))
              else if ''ZZZ'' \<in> set [''JLP'', ''KLP''] then (description, Some (''Hole pitch: '' @ ''123'' @ ''mm''))
              else if ''ZZZ'' = ''ZZZ'' then (description, Some (''Serial: '' @ ''123''))
              else if ''ZZZ'' = ''LL'' then (description, Some (''Unit: '' @ ''123''))
              else (description, Some ''123''))"
    by (rule parse_known_base)
  with other_bases lookup_ZZZ_LL(1)
  show "parse_alteration_code ''ZZZ123'' = (''Labeling (Serial Number)'', Some ''Serial: 123'')"
    by simp
qed

theorem suffix_decomposition_witness:
  "''360'' \<noteq> [] \<and> list_all is_digit ''360''
   \<and> parse_alteration_code ''AV360'' =
        (''Wrench Hole in Specified Position (Vertical, A position)'', Some ''360mm from left end'')"
proof -
  have h: "''360'' \<noteq> []" "\<forall>c \<in> set ''360''. is_digit c"
    by (simp_all add: is_digit_def)
  from suffix_decomposition [OF h]
  have "\<exists>description. ALTERATION_CODES ''AV'' = Some description
          \<and> parse_alteration_code (''AV'' @ ''360'') = (description, Some (''360'' @ ''mm from left end''))"
    by simp
  with lookup_ZZZ_LL(3) h show ?thesis
    by (simp add: list_all_iff)
qed

text \<open>
  Claim C9 (unknown tokens). The claim asks that every token that is no key of the table
  and not of the shape letters-then-digits is answered with \<^verbatim>\<open>Unknown alteration code: \<close>
  and the whole token, without qualifier. The token \<^verbatim>\<open>AV360\<close> followed by a line feed is no
  key and not of that shape, yet the regular expression accepts it, because \<^verbatim>\<open>$\<close> also
  matches before a final line feed: the parser answers with the description of \<^verbatim>\<open>AV\<close> and
  the qualifier \<^verbatim>\<open>360mm from left end\<close>, and the description does not contain
  \<^verbatim>\<open>Unknown alteration code\<close>.
\<close>

theorem trailing_line_feed_token:
  "ALTERATION_CODES (''AV360'' @ [CHR 0x0A]) = None
   \<and> \<not> spec_letters_digits_shape (''AV360'' @ [CHR 0x0A])
   \<and> parse_alteration_code (''AV360'' @ [CHR 0x0A]) =
       (''Wrench Hole in Specified Position (Vertical, A position)'', Some ''360mm from left end'')
   \<and> \<not> str_contains ''Unknown alteration code'' (fst (parse_alteration_code (''AV360'' @ [CHR 0x0A])))"
  by code_simp

text \<open>
  Claim C10 (the combined sentinel). The build-volume-aware classifier answers one of the
  letters A to H or \<^verbatim>\<open>None\<close>, never \<^verbatim>\<open>C/H\<close>. The legacy classifier does answer \<^verbatim>\<open>C/H\<close>, for
  instance on \<^verbatim>\<open>HFSB5-2020-470-TPW\<close> without a build size, and whenever it does, the length
  is 470, \<^verbatim>\<open>TPW\<close> is among the alterations and the build size is none of the three strings
  it knows.
\<close>

theorem no_combined_sentinel:
  "get_extrusion_letter decoded quantity build_volume \<in>
     {None, Some ''A'', Some ''B'', Some ''C'', Some ''D'', Some ''E'', Some ''F'', Some ''G'', Some ''H''}
   \<and> get_extrusion_letter decoded quantity build_volume \<noteq> Some ''C/H''
   \<and> voron_get_extrusion_letter (decode_misumi_name ''HFSB5-2020-470-TPW'') 1 None = Some ''C/H''
   \<and> (voron_get_extrusion_letter decoded quantity build_size = Some ''C/H'' \<longrightarrow>
        py_int_val (dict_get decoded ''length_raw'' (PStr [])) = Some 470
        \<and> py_in ''TPW'' (dict_get decoded ''alterations'' (PList []))
        \<and> build_size \<notin> {Some ''250mm'', Some ''300mm'', Some ''350mm''})"
proof (intro conjI impI)
  show r: "get_extrusion_letter decoded quantity build_volume \<in>
     {None, Some ''A'', Some ''B'', Some ''C'', Some ''D'', Some ''E'', Some ''F'', Some ''G'', Some ''H''}"
  proof (cases "decoded ''error'' \<noteq> None
                 \<or> py_int_val (dict_get decoded ''length_raw'' (PStr [])) = None")
    case True
    then show ?thesis
      by (auto simp: get_extrusion_letter_def Let_def)
  next
    case False
    then obtain len where "py_int_val (dict_get decoded ''length_raw'' (PStr [])) = Some len"
      by auto
    with False have "get_extrusion_letter decoded quantity build_volume =
        trident_rules len (dict_get decoded ''alterations'' (PList [])) quantity
          (build_size_of build_volume)"
      by (simp add: get_extrusion_letter_def Let_def)
    then show ?thesis
      using trident_rules_range by simp
  qed
  show "get_extrusion_letter decoded quantity build_volume \<noteq> Some ''C/H''"
  proof
    assume "get_extrusion_letter decoded quantity build_volume = Some ''C/H''"
    with r show False by simp
  qed
  have "py_split CHR ''-'' ''HFSB5-2020-470-TPW'' = ''HFSB5'' # ''2020'' # ''470'' # [''TPW'']"
    by simp
  from decode_misumi_name_fields [OF this]
  show "voron_get_extrusion_letter (decode_misumi_name ''HFSB5-2020-470-TPW'') 1 None = Some ''C/H''"
    by (simp add: voron_get_extrusion_letter_def dict_get_def py_eval voron_rules_CH)
next
  assume a: "voron_get_extrusion_letter decoded quantity build_size = Some ''C/H''"
  then have e: "decoded ''error'' = None"
    by (auto simp: voron_get_extrusion_letter_def split: if_splits)
  from a e obtain len where l: "py_int_val (dict_get decoded ''length_raw'' (PStr [])) = Some len"
    by (auto simp: voron_get_extrusion_letter_def Let_def split: option.splits)
  with a e have "voron_rules len (dict_get decoded ''alterations'' (PList [])) quantity build_size
      = Some ''C/H''"
    by (simp add: voron_get_extrusion_letter_def Let_def)
  then have c: "len = 470 \<and> py_in ''TPW'' (dict_get decoded ''alterations'' (PList []))
      \<and> build_size \<noteq> Some ''250mm'' \<and> build_size \<noteq> Some ''300mm'' \<and> build_size \<noteq> Some ''350mm''"
    by (simp add: voron_rules_CH)
  with l show "py_int_val (dict_get decoded ''length_raw'' (PStr [])) = Some 470" by simp
  from c show "py_in ''TPW'' (dict_get decoded ''alterations'' (PList []))" by simp
  from c show "build_size \<notin> {Some ''250mm'', Some ''300mm'', Some ''350mm''}" by simp
qed

theorem no_combined_sentinel_witness:
  "voron_get_extrusion_letter (decode_misumi_name ''HFSB5-2020-470-TPW'') 1 None = Some ''C/H''
   \<and> py_int_val (dict_get (decode_misumi_name ''HFSB5-2020-470-TPW'') ''length_raw'' (PStr [])) = Some 470
   \<and> py_in ''TPW'' (dict_get (decode_misumi_name ''HFSB5-2020-470-TPW'') ''alterations'' (PList []))
   \<and> get_extrusion_letter (decode_misumi_name ''HFSB5-2020-470-TPW'') 1 None \<noteq> Some ''C/H''"
  using no_combined_sentinel [of "decode_misumi_name ''HFSB5-2020-470-TPW''" 1 None None]
  by blast

end
